theory Spec2Isabelle
  imports Main "HOL-Library.AList"
begin

section \<open>JavaScript values\<close>

text \<open>
  The library handles JSON-shaped data throughout (GraphQL replies, workflow payloads,
  form values, option bags). \<open>jsval\<close> is that fragment of the JavaScript value space:
  numbers are restricted to integers, objects are association lists in insertion order
  (a lookup takes the first binding of a key), and strings are lists of 8-bit characters
  (Latin-1), one \<open>char\<close> per UTF-16 unit.
\<close>

datatype jsval =
    JUndefined
  | JNull
  | JBool bool
  | JNum int
  | JStr string
  | JArr "jsval list"
  | JObj "(string \<times> jsval) list"

text \<open>Errors are values. Each constructor stands for one \<open>throw\<close> site or one platform
  exception; the message of the source is given beside it.\<close>

datatype error =
    RemoteError string        \<comment> \<open>thrown by \<open>graphqlQuery\<close> (HTTP or GraphQL error)\<close>
  | TypeError                 \<comment> \<open>property read on \<open>null\<close>/\<open>undefined\<close>, call of a non-function\<close>
  | ExecutionNotFound jsval   \<comment> \<open>\<open>'Execution not found after retries: ' + executionId\<close>\<close>
  | PollTimeout               \<comment> \<open>\<open>'Workflow execution timeout after 5 minutes'\<close>\<close>
  | LaunchError               \<comment> \<open>\<open>'Failed to start workflow execution: ' + ...\<close>\<close>
  | ValidationFailed          \<comment> \<open>\<open>'Form validation failed'\<close>\<close>
  | QuotaExceeded             \<comment> \<open>\<open>sessionStorage.setItem\<close> could not store the value\<close>
  | SyntaxError               \<comment> \<open>\<open>JSON.parse\<close> on malformed text\<close>
  | HookError string          \<comment> \<open>an exception raised by a caller-supplied callback\<close>

text \<open>Truthiness, as used by \<open>!x\<close>, \<open>x || y\<close>, \<open>x && y\<close> and \<open>if (x)\<close>.\<close>

fun truthy :: "jsval \<Rightarrow> bool" where
  "truthy JUndefined = False"
| "truthy JNull = False"
| "truthy (JBool b) = b"
| "truthy (JNum n) = (n \<noteq> 0)"
| "truthy (JStr s) = (s \<noteq> [])"
| "truthy (JArr xs) = True"
| "truthy (JObj kvs) = True"

definition js_or :: "jsval \<Rightarrow> jsval \<Rightarrow> jsval" where
  "js_or a b = (if truthy a then a else b)"

definition js_and :: "jsval \<Rightarrow> jsval \<Rightarrow> jsval" where
  "js_and a b = (if truthy a then b else a)"

fun nullish :: "jsval \<Rightarrow> bool" where
  "nullish JUndefined = True"
| "nullish JNull = True"
| "nullish v = False"

text \<open>
  \<open>get_prop v k\<close> is the property read \<open>v.k\<close>. It throws on \<open>null\<close> and \<open>undefined\<close>.
  On primitives and arrays it yields \<open>undefined\<close>: it is only used with the keys the
  library reads (\<open>workflowExecution\<close>, \<open>data\<close>, \<open>status\<close>, \<open>conductor\<close>, ...), none of
  which is a built-in property of a string, number, boolean or array.
\<close>

fun get_prop :: "jsval \<Rightarrow> string \<Rightarrow> error + jsval" where
  "get_prop JUndefined k = Inl TypeError"
| "get_prop JNull k = Inl TypeError"
| "get_prop (JObj kvs) k = Inr (case map_of kvs k of None \<Rightarrow> JUndefined | Some v \<Rightarrow> v)"
| "get_prop v k = Inr JUndefined"

text \<open>\<open>opt_prop v k\<close> is the optional chain \<open>v?.k\<close>; it never throws.\<close>

definition opt_prop :: "jsval \<Rightarrow> string \<Rightarrow> jsval" where
  "opt_prop v k = (case get_prop v k of Inl e \<Rightarrow> JUndefined | Inr x \<Rightarrow> x)"

text \<open>\<open>typeof v === 'object'\<close> and \<open>Object.keys(v).length\<close> for such a value.\<close>

fun typeof_object :: "jsval \<Rightarrow> bool" where
  "typeof_object JNull = True"
| "typeof_object (JArr xs) = True"
| "typeof_object (JObj kvs) = True"
| "typeof_object v = False"

fun keys_length :: "jsval \<Rightarrow> nat" where
  "keys_length (JArr xs) = length xs"
| "keys_length (JObj kvs) = length kvs"
| "keys_length v = 0"

text \<open>
  \<open>String.prototype.toUpperCase\<close> on Latin-1 text: the letters \<open>a\<close>-\<open>z\<close> and the accented
  letters 0xE0-0xFE (0xF7, the division sign, excepted) move down by 32, and the sharp s
  (0xDF) becomes \<open>SS\<close>. The two characters whose capital lies outside Latin-1 (0xB5,
  0xFF) are kept; they never become an ASCII letter either way.
\<close>

definition upper_char :: "char \<Rightarrow> string" where
  "upper_char c =
     (let n = (of_char c :: nat) in
      if 97 \<le> n \<and> n \<le> 122 then [char_of (n - 32)]
      else if n = 223 then ''SS''
      else if 224 \<le> n \<and> n \<le> 254 \<and> n \<noteq> 247 then [char_of (n - 32)]
      else [c])"

definition toUpperCase :: "string \<Rightarrow> string" where
  "toUpperCase s = concat (map upper_char s)"

section \<open>The completion poller\<close>

text \<open>
  \<open>waitForWorkflowCompletion\<close> keeps two counters. The model adds what the loop does to
  the outside world, so that claims about it can be stated: the number of status queries
  sent, the delays awaited (in ms, oldest first) and the calls of the progress callback.
\<close>

record poll_state =
  attempts :: int
  emptyOutputRetries :: int
  queries :: nat
  waits :: "nat list"
  progress :: "(jsval \<times> jsval) list"

definition maxAttempts :: int where
  "maxAttempts = 150"

definition maxEmptyOutputRetries :: int where
  "maxEmptyOutputRetries = 10"

definition terminalStates :: "string list" where
  "terminalStates = [''COMPLETED'', ''SUCCESS'', ''succeeded'', ''FAILED'', ''failed'', ''ERROR'']"

text \<open>
  \<open>execution.status?.toUpperCase?.()\<close>: a string is upper-cased; \<open>null\<close>, \<open>undefined\<close> and
  every value without a \<open>toUpperCase\<close> property give \<open>undefined\<close>; an object that carries
  a non-nullish \<open>toUpperCase\<close> entry (JSON has no functions) makes the call throw.
\<close>

fun status_upper :: "jsval \<Rightarrow> error + jsval" where
  "status_upper (JStr s) = Inr (JStr (toUpperCase s))"
| "status_upper (JObj kvs) =
     (case map_of kvs ''toUpperCase'' of
        None \<Rightarrow> Inr JUndefined
      | Some f \<Rightarrow> if nullish f then Inr JUndefined else Inl TypeError)"
| "status_upper v = Inr JUndefined"

text \<open>\<open>terminalStates.some(s => execution.status?.toUpperCase?.() === s.toUpperCase())\<close>\<close>

definition is_terminal :: "jsval \<Rightarrow> error + bool" where
  "is_terminal status =
     (case status_upper status of
        Inl e \<Rightarrow> Inl e
      | Inr u \<Rightarrow> Inr (list_ex (\<lambda>s. u = JStr (toUpperCase s)) terminalStates))"

text \<open>\<open>!output || (typeof output === 'object' && Object.keys(output).length === 0)\<close>\<close>

definition output_empty :: "jsval \<Rightarrow> bool" where
  "output_empty output = (\<not> truthy output \<or> (typeof_object output \<and> keys_length output = 0))"

text \<open>The object returned on a terminal status.\<close>

definition executionResult :: "jsval \<Rightarrow> jsval \<Rightarrow> jsval" where
  "executionResult execution output =
     JObj [(''conductor'', JObj
       [(''output'', js_or output (JObj [])),
        (''errors'', js_or (opt_prop (opt_prop execution ''conductor'') ''errors'') (JArr [])),
        (''status'', opt_prop execution ''status'')])]"

text \<open>How one pass through the loop body ends.\<close>

datatype ctl = Next | Return jsval | Throw error

type_synonym callback = "jsval \<Rightarrow> jsval \<Rightarrow> error option"

text \<open>
  \<open>result.workflowExecution || (result.data && result.data.workflowExecution)\<close>; the read
  throws when \<open>result\<close> itself is \<open>null\<close> or \<open>undefined\<close>.
\<close>

definition extract_execution :: "jsval \<Rightarrow> error + jsval" where
  "extract_execution result =
     (case get_prop result ''workflowExecution'' of
        Inl e \<Rightarrow> Inl e
      | Inr direct \<Rightarrow>
          if truthy direct then Inr direct
          else (case get_prop result ''data'' of
                  Inl e \<Rightarrow> Inl e
                | Inr d \<Rightarrow> if truthy d then get_prop d ''workflowExecution'' else Inr d))"

text \<open>
  The \<open>try\<close> block of the loop body, from the reply of the status query on. \<open>Throw\<close> is an
  exception raised inside the block, which the \<open>catch\<close> clause below receives. The
  progress callback's own exceptions are swallowed by the inner \<open>try\<close>.
\<close>

definition try_block :: "jsval \<Rightarrow> callback option \<Rightarrow> error + jsval \<Rightarrow> poll_state \<Rightarrow> ctl \<times> poll_state" where
  "try_block executionId onProgress reply st =
     (case reply of
        Inl e \<Rightarrow> (Throw e, st)
      | Inr result \<Rightarrow>
     (case extract_execution result of
        Inl e \<Rightarrow> (Throw e, st)
      | Inr execution \<Rightarrow>
          if \<not> truthy execution then
            (if attempts st < 5
             then (Next, st\<lparr>attempts := attempts st + 1, waits := waits st @ [500]\<rparr>)
             else (Throw (ExecutionNotFound executionId), st))
          else
            let status = opt_prop execution ''status'';
                st1 = (case onProgress of
                         None \<Rightarrow> st
                       | Some cb \<Rightarrow>
                           (case cb status (opt_prop execution ''numSuccessfulTasks'') of
                              _ \<Rightarrow> st\<lparr>progress := progress st
                                     @ [(status, opt_prop execution ''numSuccessfulTasks'')]\<rparr>))
            in (case is_terminal status of
                  Inl e \<Rightarrow> (Throw e, st1)
                | Inr True \<Rightarrow>
                    let output = opt_prop (opt_prop execution ''conductor'') ''output''
                    in if output_empty output \<and> emptyOutputRetries st1 < maxEmptyOutputRetries
                       then (Next, st1\<lparr>emptyOutputRetries := emptyOutputRetries st1 + 1,
                                       waits := waits st1 @ [2500],
                                       attempts := max 0 (attempts st1 - 1)\<rparr>)
                       else (Return (executionResult execution output), st1)
                | Inr False \<Rightarrow>
                    (Next, st1\<lparr>attempts := attempts st1 + 1, waits := waits st1 @ [2000]\<rparr>))))"

text \<open>The \<open>catch (error)\<close> clause.\<close>

definition catch_block :: "error \<Rightarrow> poll_state \<Rightarrow> ctl \<times> poll_state" where
  "catch_block e st =
     (let st' = st\<lparr>attempts := attempts st + 1\<rparr>
      in if attempts st' \<ge> maxAttempts then (Throw e, st')
         else (Next, st'\<lparr>waits := waits st' @ [1000]\<rparr>))"

definition loop_body :: "jsval \<Rightarrow> callback option \<Rightarrow> error + jsval \<Rightarrow> poll_state \<Rightarrow> ctl \<times> poll_state" where
  "loop_body executionId onProgress reply st =
     (case try_block executionId onProgress reply st of
        (Throw e, st') \<Rightarrow> catch_block e st'
      | r \<Rightarrow> r)"

text \<open>The quantity that decreases with every pass that loops again.\<close>

definition poll_measure :: "poll_state \<Rightarrow> nat" where
  "poll_measure st =
     nat (maxAttempts - attempts st) + 2 * nat (maxEmptyOutputRetries - emptyOutputRetries st)"

lemma try_block_Next_decreases:
  assumes "try_block eid cb reply st = (Next, st')" and "attempts st < maxAttempts"
  shows "poll_measure st' < poll_measure st"
  using assms
  by (auto simp: try_block_def poll_measure_def maxAttempts_def maxEmptyOutputRetries_def Let_def
           split: sum.splits if_splits option.splits bool.splits)

lemma try_block_attempts:
  assumes "try_block eid cb reply st = (Throw e, st')"
  shows "attempts st' = attempts st \<and> emptyOutputRetries st' = emptyOutputRetries st"
  using assms
  by (auto simp: try_block_def Let_def
           split: sum.splits if_splits option.splits bool.splits)

lemma loop_body_Next_decreases:
  assumes "loop_body eid cb reply st = (Next, st')" and "attempts st < maxAttempts"
  shows "poll_measure st' < poll_measure st"
proof (cases "try_block eid cb reply st")
  case (Pair c s1)
  show ?thesis
  proof (cases c)
    case Next
    with Pair assms show ?thesis
      by (simp add: loop_body_def try_block_Next_decreases)
  next
    case (Return v)
    with Pair assms show ?thesis by (simp add: loop_body_def)
  next
    case (Throw e)
    with Pair have same: "attempts s1 = attempts st" "emptyOutputRetries s1 = emptyOutputRetries st"
      using try_block_attempts by blast+
    from Throw Pair assms have "catch_block e s1 = (Next, st')"
      by (simp add: loop_body_def)
    with same assms(2) show ?thesis
      by (auto simp: catch_block_def poll_measure_def Let_def maxAttempts_def split: if_splits)
  qed
qed

text \<open>
  The \<open>while (attempts < maxAttempts)\<close> loop. \<open>remote n\<close> is the outcome of the status
  query number \<open>n\<close> (counted from 0): \<open>Inl\<close> when \<open>graphqlQuery\<close> throws, \<open>Inr\<close> the data
  it returns.
\<close>

function poll_loop :: "jsval \<Rightarrow> callback option \<Rightarrow> (nat \<Rightarrow> error + jsval) \<Rightarrow> poll_state
                        \<Rightarrow> (error + jsval) \<times> poll_state" where
  "poll_loop executionId onProgress remote st =
     (if attempts st < maxAttempts then
        (case loop_body executionId onProgress (remote (queries st))
                (st\<lparr>queries := queries st + 1\<rparr>) of
           (Next, st') \<Rightarrow> poll_loop executionId onProgress remote st'
         | (Return v, st') \<Rightarrow> (Inr v, st')
         | (Throw e, st') \<Rightarrow> (Inl e, st'))
      else (Inl PollTimeout, st))"
  by pat_completeness auto
termination
proof (relation "measure (\<lambda>(eid, cb, remote, st). poll_measure st)")
  show "wf (measure (\<lambda>(eid, cb, remote, st). poll_measure st))" by simp
next
  fix executionId :: jsval and onProgress :: "callback option"
    and remote :: "nat \<Rightarrow> error + jsval" and st x1 st'
  assume a: "attempts st < maxAttempts"
    and b: "(x1, st') = loop_body executionId onProgress (remote (queries st)) (st\<lparr>queries := queries st + 1\<rparr>)"
    and c: "x1 = Next"
  from b c have "loop_body executionId onProgress (remote (queries st)) (st\<lparr>queries := queries st + 1\<rparr>) = (Next, st')"
    by simp
  moreover from a have "attempts (st\<lparr>queries := queries st + 1\<rparr>) < maxAttempts" by simp
  ultimately have "poll_measure st' < poll_measure (st\<lparr>queries := queries st + 1\<rparr>)"
    by (rule loop_body_Next_decreases)
  then show "((executionId, onProgress, remote, st'), (executionId, onProgress, remote, st))
              \<in> measure (\<lambda>(eid, cb, remote, st). poll_measure st)"
    by (simp add: poll_measure_def)
qed

declare poll_loop.simps [simp del]

definition initial_poll_state :: poll_state where
  "initial_poll_state = \<lparr>attempts = 0, emptyOutputRetries = 0, queries = 0, waits = [], progress = []\<rparr>"

definition waitForWorkflowCompletion ::
    "jsval \<Rightarrow> callback option \<Rightarrow> (nat \<Rightarrow> error + jsval) \<Rightarrow> (error + jsval) \<times> poll_state" where
  "waitForWorkflowCompletion executionId onProgress remote =
     poll_loop executionId onProgress remote initial_poll_state"

subsection \<open>Kinds of status reply\<close>

text \<open>
  The properties below speak of replies in which the execution is resolvable, absent,
  still running or terminal. These predicates read a reply exactly as the loop body does.
\<close>

definition resolved :: "error + jsval \<Rightarrow> jsval option" where
  "resolved reply =
     (case reply of
        Inl e \<Rightarrow> None
      | Inr result \<Rightarrow>
          (case extract_execution result of
             Inl e \<Rightarrow> None
           | Inr execution \<Rightarrow> if truthy execution then Some execution else None))"

definition absent :: "error + jsval \<Rightarrow> bool" where
  "absent reply =
     (case reply of
        Inl e \<Rightarrow> False
      | Inr result \<Rightarrow>
          (case extract_execution result of
             Inl e \<Rightarrow> False
           | Inr execution \<Rightarrow> \<not> truthy execution))"


definition running :: "error + jsval \<Rightarrow> bool" where
  "running reply =
     (case resolved reply of
        None \<Rightarrow> False
      | Some execution \<Rightarrow> is_terminal (opt_prop execution ''status'') = Inr False)"



subsection \<open>Sample status replies\<close>

text \<open>Concrete replies of the status query, used to run the poller on actual inputs.\<close>

definition status_reply :: "string \<Rightarrow> jsval \<Rightarrow> error + jsval" where
  "status_reply status output =
     Inr (JObj [(''workflowExecution'', JObj
       [(''id'', JStr ''exec-1''),
        (''status'', JStr status),
        (''conductor'', JObj [(''errors'', JArr []), (''output'', output)]),
        (''numSuccessfulTasks'', JNum 3)])])"

definition never_queryable :: "nat \<Rightarrow> error + jsval" where
  "never_queryable n = Inr (JObj [(''workflowExecution'', JNull)])"

definition always_running :: "nat \<Rightarrow> error + jsval" where
  "always_running n = status_reply ''running'' JUndefined"


section \<open>Platform services\<close>

text \<open>
  \<open>JSON.stringify\<close> and \<open>JSON.parse\<close> belong to the JavaScript platform, not to the
  library; the model takes them as parameters. \<open>parse\<close> yields \<open>None\<close> where
  \<open>JSON.parse\<close> throws a \<open>SyntaxError\<close>.
\<close>

record platform =
  stringify :: "jsval \<Rightarrow> string"
  parse :: "string \<Rightarrow> jsval option"

section \<open>Session storage\<close>

text \<open>
  \<open>sessionStorage\<close>: string keys to string values, in insertion order, within a quota.
  \<open>setItem\<close> throws \<open>QuotaExceededError\<close> when the store would grow beyond it; the
  size is counted in characters of keys and values.
\<close>

record session =
  items :: "(string \<times> string) list"
  quota :: nat

definition storage_size :: "(string \<times> string) list \<Rightarrow> nat" where
  "storage_size kvs = sum_list (map (\<lambda>kv. length (fst kv) + length (snd kv)) kvs)"

definition getItem :: "string \<Rightarrow> session \<Rightarrow> string option" where
  "getItem k s = map_of (items s) k"

definition setItem :: "string \<Rightarrow> string \<Rightarrow> session \<Rightarrow> error + session" where
  "setItem k v s =
     (let kvs = AList.update k v (items s)
      in if storage_size kvs > quota s then Inl QuotaExceeded else Inr (s\<lparr>items := kvs\<rparr>))"

definition removeItem :: "string \<Rightarrow> session \<Rightarrow> session" where
  "removeItem k s = s\<lparr>items := AList.delete k (items s)\<rparr>"

text \<open>\<open>key.startsWith(p)\<close>\<close>

fun startsWith :: "string \<Rightarrow> string \<Rightarrow> bool" where
  "startsWith s [] = True"
| "startsWith [] (p # ps) = False"
| "startsWith (c # cs) (p # ps) = (c = p \<and> startsWith cs ps)"

section \<open>The execution launcher\<close>

record config =
  graphqlEndpoint :: string
  config_skip_cache :: jsval

type_synonym errors = "(string \<times> string list) list"

text \<open>What a caller-supplied \<open>onError\<close> or \<open>onSuccess\<close> hook is called with.\<close>

datatype hook_arg = ErrorsArg errors | ErrorArg error | ResultArg jsval

text \<open>A hook either returns (\<open>None\<close>) or throws.\<close>

type_synonym hook = "hook_arg \<Rightarrow> error option"

record options =
  skip_cache :: jsval
  useCache :: jsval
  onProgress :: "callback option"
  onSuccess :: "hook option"
  onError :: "hook option"

text \<open>
  The remote endpoint as seen by one call of \<open>executeWorkflow\<close>: the outcome of the launch
  mutation and the outcomes of the status queries that follow it.
\<close>

record remote =
  launch_reply :: "error + jsval"
  status_replies :: "nat \<Rightarrow> error + jsval"

text \<open>\<open>`workflow_cache_${workflowId}_${JSON.stringify(inputData)}`\<close>\<close>

definition cacheKey :: "platform \<Rightarrow> string \<Rightarrow> jsval \<Rightarrow> string" where
  "cacheKey pf workflowId inputData =
     ''workflow_cache_'' @ workflowId @ ''_'' @ stringify pf inputData"

text \<open>The \<open>useCache\<close> flag computed at the head of \<open>executeWorkflow\<close>.\<close>

definition resolve_useCache :: "options \<Rightarrow> config \<Rightarrow> bool" where
  "resolve_useCache opts cfg =
     (if skip_cache opts = JBool True then False
      else if useCache opts = JBool False then False
      else if config_skip_cache cfg = JBool True then False
      else True)"

text \<open>
  \<open>result.testResult || (result.data && result.data.testResult)\<close>, then the check
  \<open>!testResult || !testResult.executionId\<close>; yields the execution id.
\<close>

definition extract_executionId :: "jsval \<Rightarrow> error + jsval" where
  "extract_executionId result =
     (case get_prop result ''testResult'' of
        Inl e \<Rightarrow> Inl e
      | Inr direct \<Rightarrow>
          (case (if truthy direct then Inr direct
                 else (case get_prop result ''data'' of
                         Inl e \<Rightarrow> Inl e
                       | Inr d \<Rightarrow> if truthy d then get_prop d ''testResult'' else Inr d)) of
             Inl e \<Rightarrow> Inl e
           | Inr testResult \<Rightarrow>
               if \<not> truthy testResult \<or> \<not> truthy (opt_prop testResult ''executionId'')
               then Inl LaunchError
               else Inr (opt_prop testResult ''executionId'')))"

text \<open>A parameter default, \<open>f(x = d)\<close>: it replaces \<open>undefined\<close> only.\<close>

definition default_arg :: "jsval \<Rightarrow> jsval \<Rightarrow> jsval" where
  "default_arg v d = (if v = JUndefined then d else v)"

text \<open>
  The result of a launch: what the caller gets, the session storage afterwards, and the
  number of requests sent to the remote endpoint.
\<close>

record launch_result =
  outcome :: "error + jsval"
  storage :: session
  requests :: nat

definition executeWorkflow ::
    "platform \<Rightarrow> config \<Rightarrow> remote \<Rightarrow> string \<Rightarrow> jsval \<Rightarrow> options \<Rightarrow> session \<Rightarrow> launch_result" where
  "executeWorkflow pf cfg rem workflowId inputData0 opts s =
     (let inputData = default_arg inputData0 (JObj []);
          key = cacheKey pf workflowId inputData;
          use = resolve_useCache opts cfg;
          cachedResult = (if use then getItem key s else None)
      in case (case cachedResult of None \<Rightarrow> None | Some t \<Rightarrow> if t \<noteq> [] then Some t else None) of
           Some t \<Rightarrow>
             \<lparr>outcome = (case parse pf t of None \<Rightarrow> Inl SyntaxError | Some v \<Rightarrow> Inr v),
              storage = s, requests = 0\<rparr>
         | None \<Rightarrow>
             (case launch_reply rem of
                Inl e \<Rightarrow> \<lparr>outcome = Inl e, storage = s, requests = 1\<rparr>
              | Inr result \<Rightarrow>
             (case extract_executionId result of
                Inl e \<Rightarrow> \<lparr>outcome = Inl e, storage = s, requests = 1\<rparr>
              | Inr executionId \<Rightarrow>
             (case waitForWorkflowCompletion executionId (onProgress opts) (status_replies rem) of
                (Inl e, st) \<Rightarrow> \<lparr>outcome = Inl e, storage = s, requests = 1 + queries st\<rparr>
              | (Inr finished, st) \<Rightarrow>
                  if use then
                    (case setItem key (stringify pf finished) s of
                       Inl e \<Rightarrow> \<lparr>outcome = Inl e, storage = s, requests = 1 + queries st\<rparr>
                     | Inr s' \<Rightarrow> \<lparr>outcome = Inr finished, storage = s',
                                 requests = 1 + queries st\<rparr>)
                  else \<lparr>outcome = Inr finished, storage = s,
                        requests = 1 + queries st\<rparr>))))"

text \<open>
  \<open>clearWorkflowCache(workflowId = null, inputData = null)\<close>. \<open>None\<close> is an omitted (or
  \<open>null\<close>) workflow id; an empty id is falsy as well.
\<close>

definition remove_prefixed :: "string \<Rightarrow> session \<Rightarrow> session" where
  "remove_prefixed p s =
     fold (\<lambda>key acc. if startsWith key p then removeItem key acc else acc) (map fst (items s)) s"

definition clearWorkflowCache :: "platform \<Rightarrow> string option \<Rightarrow> jsval \<Rightarrow> session \<Rightarrow> session" where
  "clearWorkflowCache pf workflowId inputData s =
     (case (case workflowId of None \<Rightarrow> None | Some w \<Rightarrow> if w = [] then None else Some w) of
        None \<Rightarrow> remove_prefixed ''workflow_cache_'' s
      | Some w \<Rightarrow>
          if truthy inputData then removeItem (cacheKey pf w inputData) s
          else remove_prefixed (''workflow_cache_'' @ w @ ''_'') s)"

subsection \<open>Cache entries and invalidation\<close>

definition cache_hit :: "string \<Rightarrow> session \<Rightarrow> bool" where
  "cache_hit key s = (case getItem key s of None \<Rightarrow> False | Some t \<Rightarrow> t \<noteq> [])"

text \<open>Whether a call \<open>clearWorkflowCache(workflowId, inputData)\<close> removes the entry \<open>key\<close>.\<close>

definition touches :: "platform \<Rightarrow> string option \<Rightarrow> jsval \<Rightarrow> string \<Rightarrow> bool" where
  "touches pf workflowId inputData key =
     (case (case workflowId of None \<Rightarrow> None | Some w \<Rightarrow> if w = [] then None else Some w) of
        None \<Rightarrow> startsWith key ''workflow_cache_''
      | Some w \<Rightarrow>
          if truthy inputData then key = cacheKey pf w inputData
          else startsWith key (''workflow_cache_'' @ w @ ''_''))"

definition apply_clears :: "platform \<Rightarrow> (string option \<times> jsval) list \<Rightarrow> session \<Rightarrow> session" where
  "apply_clears pf cs s = fold (\<lambda>c acc. clearWorkflowCache pf (fst c) (snd c) acc) cs s"

subsection \<open>A reference platform\<close>

text \<open>
  A concrete \<open>JSON.stringify\<close>/\<open>JSON.parse\<close> pair over \<open>jsval\<close>, for running the model on
  actual inputs. The writer produces the compact text of \<open>JSON.stringify\<close>: properties
  whose value is \<open>undefined\<close> are left out, \<open>undefined\<close> in an array is written \<open>null\<close>.
  The reader accepts JSON text with integer numbers.
\<close>

definition digit_char :: "nat \<Rightarrow> char" where
  "digit_char d = char_of (48 + d)"

fun decimal :: "nat \<Rightarrow> string" where
  "decimal n = (if n < 10 then [digit_char n] else decimal (n div 10) @ [digit_char (n mod 10)])"

declare decimal.simps [simp del]

definition show_int :: "int \<Rightarrow> string" where
  "show_int i = (if i < 0 then CHR ''-'' # decimal (nat (- i)) else decimal (nat i))"

definition hex_char :: "nat \<Rightarrow> char" where
  "hex_char d = (if d < 10 then char_of (48 + d) else char_of (87 + d))"

definition escape_char :: "char \<Rightarrow> string" where
  "escape_char c =
     (let n = (of_char c :: nat) in
      if n = 34 then [CHR 0x5C, CHR 0x22]
      else if n = 92 then [CHR 0x5C, CHR 0x5C]
      else if n = 8 then [CHR 0x5C, CHR ''b'']
      else if n = 12 then [CHR 0x5C, CHR ''f'']
      else if n = 10 then [CHR 0x5C, CHR ''n'']
      else if n = 13 then [CHR 0x5C, CHR ''r'']
      else if n = 9 then [CHR 0x5C, CHR ''t'']
      else if n < 32 then [CHR 0x5C, CHR ''u'', CHR ''0'', CHR ''0'', hex_char (n div 16), hex_char (n mod 16)]
      else [c])"

definition quote :: "string \<Rightarrow> string" where
  "quote s = CHR 0x22 # concat (map escape_char s) @ [CHR 0x22]"

fun join :: "string \<Rightarrow> string list \<Rightarrow> string" where
  "join sep [] = []"
| "join sep [x] = x"
| "join sep (x # y # ys) = x @ sep @ join sep (y # ys)"

fun json_text :: "jsval \<Rightarrow> string"
  and json_elems :: "jsval list \<Rightarrow> string list"
  and json_props :: "(string \<times> jsval) list \<Rightarrow> string list" where
  "json_text JUndefined = ''undefined''"
| "json_text JNull = ''null''"
| "json_text (JBool b) = (if b then ''true'' else ''false'')"
| "json_text (JNum n) = show_int n"
| "json_text (JStr s) = quote s"
| "json_text (JArr xs) = ''['' @ join '','' (json_elems xs) @ '']''"
| "json_text (JObj kvs) = ''{'' @ join '','' (json_props kvs) @ ''}''"
| "json_elems [] = []"
| "json_elems (x # xs) = (if x = JUndefined then ''null'' else json_text x) # json_elems xs"
| "json_props [] = []"
| "json_props (kv # kvs) =
     (if snd kv = JUndefined then json_props kvs
      else (quote (fst kv) @ '':'' @ json_text (snd kv)) # json_props kvs)"

definition is_digit :: "char \<Rightarrow> bool" where
  "is_digit c = (48 \<le> (of_char c :: nat) \<and> (of_char c :: nat) \<le> 57)"

definition is_space :: "char \<Rightarrow> bool" where
  "is_space c = ((of_char c :: nat) \<in> {9, 10, 13, 32})"

fun skip_ws :: "string \<Rightarrow> string" where
  "skip_ws [] = []"
| "skip_ws (c # cs) = (if is_space c then skip_ws cs else c # cs)"

fun read_digits :: "string \<Rightarrow> nat \<Rightarrow> nat \<times> string" where
  "read_digits [] acc = (acc, [])"
| "read_digits (c # cs) acc =
     (if is_digit c then read_digits cs (acc * 10 + (of_char c - 48)) else (acc, c # cs))"

definition hex_val :: "char \<Rightarrow> nat option" where
  "hex_val c =
     (let n = (of_char c :: nat) in
      if 48 \<le> n \<and> n \<le> 57 then Some (n - 48)
      else if 97 \<le> n \<and> n \<le> 102 then Some (n - 87)
      else if 65 \<le> n \<and> n \<le> 70 then Some (n - 55)
      else None)"

definition unescape :: "char \<Rightarrow> char option" where
  "unescape e =
     (if e = CHR 0x22 \<or> e = CHR 0x5C \<or> e = CHR ''/'' then Some e
      else if e = CHR ''b'' then Some (CHR 0x08)
      else if e = CHR ''f'' then Some (CHR 0x0C)
      else if e = CHR ''n'' then Some (CHR 0x0A)
      else if e = CHR ''r'' then Some (CHR 0x0D)
      else if e = CHR ''t'' then Some (CHR 0x09)
      else None)"

text \<open>The rest of a string literal, after its opening quote.\<close>

fun read_string :: "string \<Rightarrow> string \<Rightarrow> (string \<times> string) option" where
  "read_string [] acc = None"
| "read_string [c] acc = (if c = CHR 0x22 then Some (acc, []) else None)"
| "read_string (c # e # cs) acc =
     (if c = CHR 0x22 then Some (acc, e # cs)
      else if c = CHR 0x5C then
        (if e = CHR ''u'' then
           (case cs of
              a # b # h # l # rest \<Rightarrow>
                (case (hex_val a, hex_val b, hex_val h, hex_val l) of
                   (Some 0, Some 0, Some x, Some y) \<Rightarrow> read_string rest (acc @ [char_of (16 * x + y)])
                 | _ \<Rightarrow> None)
            | _ \<Rightarrow> None)
         else (case unescape e of None \<Rightarrow> None | Some u \<Rightarrow> read_string cs (acc @ [u])))
      else if (of_char c :: nat) < 32 then None
      else read_string (e # cs) (acc @ [c]))"

definition expect :: "char \<Rightarrow> string \<Rightarrow> string option" where
  "expect c s = (case skip_ws s of [] \<Rightarrow> None | x # xs \<Rightarrow> if x = c then Some xs else None)"

fun read_value :: "nat \<Rightarrow> string \<Rightarrow> (jsval \<times> string) option"
  and read_elements :: "nat \<Rightarrow> string \<Rightarrow> jsval list \<Rightarrow> (jsval list \<times> string) option"
  and read_members :: "nat \<Rightarrow> string \<Rightarrow> (string \<times> jsval) list \<Rightarrow> ((string \<times> jsval) list \<times> string) option"
  where
  "read_value 0 s = None"
| "read_value (Suc n) s =
     (case skip_ws s of
        [] \<Rightarrow> None
      | c # cs \<Rightarrow>
          if c = CHR 0x22 then
            (case read_string cs [] of None \<Rightarrow> None | Some (t, rest) \<Rightarrow> Some (JStr t, rest))
          else if c = CHR ''['' then
            (case expect CHR '']'' cs of
               Some rest \<Rightarrow> Some (JArr [], rest)
             | None \<Rightarrow>
                 (case read_elements n cs [] of None \<Rightarrow> None | Some (xs, rest) \<Rightarrow> Some (JArr xs, rest)))
          else if c = CHR ''{'' then
            (case expect CHR ''}'' cs of
               Some rest \<Rightarrow> Some (JObj [], rest)
             | None \<Rightarrow>
                 (case read_members n cs [] of None \<Rightarrow> None | Some (kvs, rest) \<Rightarrow> Some (JObj kvs, rest)))
          else if c = CHR ''-'' then
            (case cs of
               [] \<Rightarrow> None
             | d # ds \<Rightarrow>
                 if is_digit d
                 then (case read_digits cs 0 of (k, rest) \<Rightarrow> Some (JNum (- int k), rest))
                 else None)
          else if is_digit c then
            (case read_digits (c # cs) 0 of (k, rest) \<Rightarrow> Some (JNum (int k), rest))
          else if take 4 (c # cs) = ''null'' then Some (JNull, drop 4 (c # cs))
          else if take 4 (c # cs) = ''true'' then Some (JBool True, drop 4 (c # cs))
          else if take 5 (c # cs) = ''false'' then Some (JBool False, drop 5 (c # cs))
          else None)"
| "read_elements 0 s acc = None"
| "read_elements (Suc n) s acc =
     (case read_value n s of
        None \<Rightarrow> None
      | Some (v, rest) \<Rightarrow>
          (case expect CHR '','' rest of
             Some rest' \<Rightarrow> read_elements n rest' (acc @ [v])
           | None \<Rightarrow>
               (case expect CHR '']'' rest of
                  Some rest' \<Rightarrow> Some (acc @ [v], rest')
                | None \<Rightarrow> None)))"
| "read_members 0 s acc = None"
| "read_members (Suc n) s acc =
     (case expect CHR 0x22 s of
        None \<Rightarrow> None
      | Some s1 \<Rightarrow>
     (case read_string s1 [] of
        None \<Rightarrow> None
      | Some (k, s2) \<Rightarrow>
     (case expect CHR '':'' s2 of
        None \<Rightarrow> None
      | Some s3 \<Rightarrow>
     (case read_value n s3 of
        None \<Rightarrow> None
      | Some (v, s4) \<Rightarrow>
          (case expect CHR '','' s4 of
             Some s5 \<Rightarrow> read_members n s5 (AList.update k v acc)
           | None \<Rightarrow>
               (case expect CHR ''}'' s4 of
                  Some s5 \<Rightarrow> Some (AList.update k v acc, s5)
                | None \<Rightarrow> None))))))"

definition json_read :: "string \<Rightarrow> jsval option" where
  "json_read s =
     (case read_value (Suc (length s)) s of
        None \<Rightarrow> None
      | Some (v, rest) \<Rightarrow> if skip_ws rest = [] then Some v else None)"

definition browser :: platform where
  "browser = \<lparr>stringify = json_text, parse = json_read\<rparr>"

subsection \<open>Sample launches\<close>

definition default_config :: config where
  "default_config = \<lparr>graphqlEndpoint = ''/graphql'', config_skip_cache = JBool False\<rparr>"

definition no_options :: options where
  "no_options = \<lparr>skip_cache = JUndefined, useCache = JUndefined, onProgress = None,
                  onSuccess = None, onError = None\<rparr>"

definition ticket_result :: jsval where
  "ticket_result = JObj [(''conductor'', JObj [(''output'', JObj [(''ticket'', JNum 42)]),
                                               (''errors'', JArr []),
                                               (''status'', JStr ''COMPLETED'')])]"

definition online :: remote where
  "online = \<lparr>launch_reply = Inr (JObj [(''testResult'', JObj [(''executionId'', JStr ''exec-1'')])]),
             status_replies = (\<lambda>n. status_reply ''COMPLETED'' (JObj [(''ticket'', JNum 42)]))\<rparr>"

definition offline :: remote where
  "offline = \<lparr>launch_reply = Inl (RemoteError ''GraphQL HTTP 503: Unknown error''),
              status_replies = (\<lambda>n. Inl (RemoteError ''GraphQL HTTP 503: Unknown error''))\<rparr>"

definition empty_session :: session where
  "empty_session = \<lparr>items = [], quota = 5000\<rparr>"

definition full_session :: session where
  "full_session = \<lparr>items = [(''theme'', ''dark'')], quota = 16\<rparr>"

definition x1 :: jsval where
  "x1 = JObj [(''x'', JNum 1)]"

section \<open>Forms\<close>

text \<open>
  One entry of the field-configuration list. \<open>field_type\<close> is the \<open>type\<close> property. The
  length bounds are numbers when present (\<open>None\<close>: the property is missing); all other
  properties are arbitrary values, read by truthiness or strict equality as in the source.
\<close>

record field_config =
  field_name :: string
  field_displayname :: string
  field_type :: jsval
  required :: jsval
  min_length :: "int option"
  max_length :: "int option"
  hidden :: jsval
  condition_1 :: jsval
  condition_1_action :: jsval
  condition_2 :: jsval
  condition_2_action :: jsval

text \<open>
  The part of the document the library touches. \<open>inputs name\<close> is the first
  \<open>input\<close>, \<open>select\<close> or \<open>textarea\<close> of that name, \<open>checked_radio name\<close> the value of the first
  checked input of that name, and \<open>display name\<close> the \<open>style.display\<close> of the first element
  whose \<open>data-field-name\<close> is \<open>name\<close> (\<open>None\<close> when there is no such element).
\<close>

record dom_input =
  input_type :: string
  checked :: bool
  input_value :: string

record dom =
  inputs :: "string \<Rightarrow> dom_input option"
  checked_radio :: "string \<Rightarrow> string option"
  display :: "string \<Rightarrow> string option"

text \<open>
  The expression machinery of the platform that \<open>evaluateCondition\<close> relies on:
  \<open>replace_word key r e\<close> is \<open>e.replace(new RegExp(`\\b${key}\\b`, 'g'), r)\<close>, and
  \<open>js_eval e\<close> is \<open>eval(e)\<close>; \<open>None\<close> where the platform throws. Both are taken to be
  free of side effects.
\<close>

record engine =
  replace_word :: "string \<Rightarrow> string \<Rightarrow> string \<Rightarrow> string option"
  js_eval :: "string \<Rightarrow> jsval option"

text \<open>\<open>obj[key]\<close> on a plain object.\<close>

definition lookup :: "(string \<times> jsval) list \<Rightarrow> string \<Rightarrow> jsval" where
  "lookup obj k = (case map_of obj k of None \<Rightarrow> JUndefined | Some v \<Rightarrow> v)"

text \<open>\<open>String(v)\<close>, the conversion applied by \<open>RegExp.test\<close> and \<open>String.replace\<close>.\<close>

fun js_toString :: "jsval \<Rightarrow> string"
  and elems_toString :: "jsval list \<Rightarrow> string list" where
  "js_toString JUndefined = ''undefined''"
| "js_toString JNull = ''null''"
| "js_toString (JBool b) = (if b then ''true'' else ''false'')"
| "js_toString (JNum n) = show_int n"
| "js_toString (JStr s) = s"
| "js_toString (JArr xs) = join '','' (elems_toString xs)"
| "js_toString (JObj kvs) = ''[object Object]''"
| "elems_toString [] = []"
| "elems_toString (x # xs) = (if nullish x then [] else js_toString x) # elems_toString xs"

subsection \<open>Conditional visibility\<close>

text \<open>\<open>typeof value === 'string' ? `'${value}'` : value\<close>, as \<open>replace\<close> receives it.\<close>

definition single_quoted :: "string \<Rightarrow> string" where
  "single_quoted s = [CHR 0x27] @ s @ [CHR 0x27]"

definition replacement :: "jsval \<Rightarrow> string" where
  "replacement v = (case v of JStr s \<Rightarrow> single_quoted s | _ \<Rightarrow> js_toString v)"

definition substitute :: "engine \<Rightarrow> (string \<times> jsval) list \<Rightarrow> string \<Rightarrow> string option \<Rightarrow> string option" where
  "substitute eng formData key expression =
     (case expression of
        None \<Rightarrow> None
      | Some e \<Rightarrow> replace_word eng key (replacement (lookup formData key)) e)"

text \<open>
  \<open>evaluateCondition\<close>. The keys are sorted by decreasing length, keeping the order of
  equal lengths. Every exception inside the \<open>try\<close> gives \<open>false\<close>. A truthy condition that
  is not a string has no \<open>replace\<close> method, so the first substitution throws; with no
  key to substitute, \<open>eval\<close> hands such a value back unchanged.
\<close>

definition evaluateCondition :: "engine \<Rightarrow> jsval \<Rightarrow> (string \<times> jsval) list \<Rightarrow> jsval" where
  "evaluateCondition eng conditionString formData =
     (if \<not> truthy conditionString then JBool True
      else
        let sortedKeys = sort_key (\<lambda>k. - int (length k)) (map fst formData)
        in case conditionString of
             JStr s \<Rightarrow>
               (case fold (substitute eng formData) sortedKeys (Some s) of
                  None \<Rightarrow> JBool False
                | Some expression \<Rightarrow>
                    (case js_eval eng expression of None \<Rightarrow> JBool False | Some v \<Rightarrow> v))
           | v \<Rightarrow> if sortedKeys = [] then v else JBool False)"

text \<open>The first loop of \<open>evaluateConditionalVisibility\<close>: the current form values.\<close>

definition read_field :: "dom \<Rightarrow> field_config \<Rightarrow> (string \<times> jsval) list \<Rightarrow> (string \<times> jsval) list" where
  "read_field d c formData =
     (case inputs d (field_name c) of
        None \<Rightarrow> formData
      | Some input \<Rightarrow>
          if input_type input = ''checkbox''
          then AList.update (field_name c) (JBool (checked input)) formData
          else if input_type input = ''radio''
          then AList.update (field_name c)
                 (case checked_radio d (field_name c) of None \<Rightarrow> JNull | Some v \<Rightarrow> JStr v) formData
          else AList.update (field_name c) (JStr (input_value input)) formData)"

definition collect_formData :: "dom \<Rightarrow> field_config list \<Rightarrow> (string \<times> jsval) list" where
  "collect_formData d allFieldConfigs = fold (read_field d) allFieldConfigs []"

text \<open>The value of \<open>shouldShow\<close> at the end of the second loop's body.\<close>

definition shouldShow :: "engine \<Rightarrow> (string \<times> jsval) list \<Rightarrow> field_config \<Rightarrow> jsval" where
  "shouldShow eng formData c =
     (let show0 = JBool (\<not> truthy (hidden c));
          show1 = (if truthy (condition_1 c) \<and> condition_1_action c = JStr ''show''
                   then evaluateCondition eng (condition_1 c) formData
                   else show0);
          show2 = (if truthy (condition_2 c) \<and> condition_2_action c = JStr ''show''
                   then js_and show1 (evaluateCondition eng (condition_2 c) formData)
                   else show1)
      in show2)"

definition apply_visibility :: "engine \<Rightarrow> (string \<times> jsval) list \<Rightarrow> field_config \<Rightarrow> dom \<Rightarrow> dom" where
  "apply_visibility eng formData c d =
     (case display d (field_name c) of
        None \<Rightarrow> d
      | Some old \<Rightarrow>
          d\<lparr>display := (display d)(field_name c \<mapsto>
                (if truthy (shouldShow eng formData c) then [] else ''none''))\<rparr>)"

definition evaluateConditionalVisibility :: "engine \<Rightarrow> field_config list \<Rightarrow> dom \<Rightarrow> dom" where
  "evaluateConditionalVisibility eng allFieldConfigs d =
     fold (apply_visibility eng (collect_formData d allFieldConfigs)) allFieldConfigs d"

subsection \<open>Validation\<close>

text \<open>
  \<open>/^[^\\s@]+@[^\\s@]+\\.[^\\s@]+$/\<close>. No character may be white space or \<open>@\<close> except the
  one \<open>@\<close> that ends the first part, and what follows it must have a dot with at least
  one character on either side.
\<close>

definition regex_space :: "char \<Rightarrow> bool" where
  "regex_space c = ((of_char c :: nat) \<in> {9, 10, 11, 12, 13, 32, 160})"

definition plain_char :: "char \<Rightarrow> bool" where
  "plain_char c = (\<not> regex_space c \<and> c \<noteq> CHR ''@'')"

definition emailRegex_test :: "string \<Rightarrow> bool" where
  "emailRegex_test s =
     (let name = takeWhile (\<lambda>c. c \<noteq> CHR ''@'') s;
          rest = dropWhile (\<lambda>c. c \<noteq> CHR ''@'') s
      in name \<noteq> [] \<and> list_all plain_char name \<and>
         (case rest of
            [] \<Rightarrow> False
          | at # host \<Rightarrow>
              list_all plain_char host \<and>
              list_ex (\<lambda>i. host ! i = CHR ''.'') [1 ..< length host - 1]))"

text \<open>
  \<open>value.length\<close>: strings and arrays have one; an object has one when it carries a
  numeric \<open>length\<close> entry; for anything else it is \<open>undefined\<close>, and every comparison
  with \<open>undefined\<close> is false.
\<close>

fun js_length :: "jsval \<Rightarrow> int option" where
  "js_length (JStr s) = Some (int (length s))"
| "js_length (JArr xs) = Some (int (length xs))"
| "js_length (JObj kvs) = (case map_of kvs ''length'' of Some (JNum n) \<Rightarrow> Some n | _ \<Rightarrow> None)"
| "js_length v = None"

record validation =
  isValid :: bool
  errors :: "(string \<times> string list) list"

text \<open>
  \<open>if (!errors[name]) errors[name] = []; errors[name].push(msg); isValid = false\<close>
\<close>

definition add_error :: "string \<Rightarrow> string \<Rightarrow> validation \<Rightarrow> validation" where
  "add_error name msg v =
     \<lparr>isValid = False,
      errors = AList.update name
                 ((case map_of (errors v) name of None \<Rightarrow> [] | Some msgs \<Rightarrow> msgs) @ [msg])
                 (errors v)\<rparr>"

text \<open>The body of the \<open>forEach\<close> in \<open>validateForm\<close>, for one configuration.\<close>

definition validate_field :: "dom \<Rightarrow> (string \<times> jsval) list \<Rightarrow> field_config \<Rightarrow> validation \<Rightarrow> validation" where
  "validate_field d formData c v =
     (let value = lookup formData (field_name c)
      in if truthy (required c) \<and> display d (field_name c) = Some ''none'' then v
         else
           let v1 = (if truthy (required c) \<and>
                        (value = JUndefined \<or> value = JNull \<or> value = JStr [] \<or> value = JArr [])
                     then add_error (field_name c) (field_displayname c @ '' is required'') v
                     else v)
           in if truthy value then
                let v2 = (if field_type c = JStr ''email'' \<and> \<not> emailRegex_test (js_toString value)
                          then add_error (field_name c)
                                 (field_displayname c @ '' must be a valid email address'') v1
                          else v1);
                    v3 = (case min_length c of
                            None \<Rightarrow> v2
                          | Some n \<Rightarrow>
                              if n \<noteq> 0 \<and> (case js_length value of None \<Rightarrow> False | Some l \<Rightarrow> l < n)
                              then add_error (field_name c)
                                     (field_displayname c @ '' must be at least '' @ show_int n
                                        @ '' characters'') v2
                              else v2);
                    v4 = (case max_length c of
                            None \<Rightarrow> v3
                          | Some n \<Rightarrow>
                              if n \<noteq> 0 \<and> (case js_length value of None \<Rightarrow> False | Some l \<Rightarrow> l > n)
                              then add_error (field_name c)
                                     (field_displayname c @ '' must not exceed '' @ show_int n
                                        @ '' characters'') v3
                              else v3)
                in v4
              else v1)"

definition validateForm :: "dom \<Rightarrow> (string \<times> jsval) list \<Rightarrow> field_config list \<Rightarrow> validation" where
  "validateForm d formData fieldConfigs =
     fold (validate_field d formData) fieldConfigs \<lparr>isValid = True, errors = []\<rparr>"

subsection \<open>Submission\<close>

text \<open>
  The result of \<open>submitForm\<close>: the launch result, plus the arguments the \<open>onError\<close> and
  \<open>onSuccess\<close> hooks were called with, in order.
\<close>

record submit_result =
  submitted :: launch_result
  onError_calls :: "hook_arg list"
  onSuccess_calls :: "hook_arg list"

text \<open>
  Calling an optional hook: nothing happens when it is missing; otherwise the call is
  recorded and the hook's exception, if any, is the result.
\<close>

definition call_hook :: "hook option \<Rightarrow> hook_arg \<Rightarrow> hook_arg list \<Rightarrow> error option \<times> hook_arg list" where
  "call_hook h arg calls =
     (case h of None \<Rightarrow> (None, calls) | Some f \<Rightarrow> (f arg, calls @ [arg]))"

text \<open>The \<open>try\<close> block of \<open>submitForm\<close>; an \<open>Inl\<close> outcome is an exception raised in it.\<close>

definition submit_try ::
    "platform \<Rightarrow> config \<Rightarrow> remote \<Rightarrow> dom \<Rightarrow> string \<Rightarrow> (string \<times> jsval) list \<Rightarrow> field_config list
       \<Rightarrow> options \<Rightarrow> session \<Rightarrow> submit_result" where
  "submit_try pf cfg rem d workflowId formData fieldConfigs opts s =
     (let validation = validateForm d formData fieldConfigs
      in if \<not> isValid validation then
           (case call_hook (onError opts) (ErrorsArg (errors validation)) [] of
              (Some e, calls) \<Rightarrow>
                \<lparr>submitted = \<lparr>outcome = Inl e, storage = s, requests = 0\<rparr>,
                 onError_calls = calls, onSuccess_calls = []\<rparr>
            | (None, calls) \<Rightarrow>
                \<lparr>submitted = \<lparr>outcome = Inl ValidationFailed, storage = s, requests = 0\<rparr>,
                 onError_calls = calls, onSuccess_calls = []\<rparr>)
         else
           let r = executeWorkflow pf cfg rem workflowId (JObj formData) opts s
           in case outcome r of
                Inl e \<Rightarrow> \<lparr>submitted = r, onError_calls = [], onSuccess_calls = []\<rparr>
              | Inr result \<Rightarrow>
                  (case call_hook (onSuccess opts) (ResultArg result) [] of
                     (Some e, calls) \<Rightarrow>
                       \<lparr>submitted = r\<lparr>outcome := Inl e\<rparr>, onError_calls = [], onSuccess_calls = calls\<rparr>
                   | (None, calls) \<Rightarrow>
                       \<lparr>submitted = r, onError_calls = [], onSuccess_calls = calls\<rparr>))"

text \<open>\<open>submitForm\<close>: the \<open>try\<close> block, then the \<open>catch\<close> clause for whatever it threw.\<close>

definition submitForm ::
    "platform \<Rightarrow> config \<Rightarrow> remote \<Rightarrow> dom \<Rightarrow> string \<Rightarrow> (string \<times> jsval) list \<Rightarrow> field_config list
       \<Rightarrow> options \<Rightarrow> session \<Rightarrow> submit_result" where
  "submitForm pf cfg rem d workflowId formData fieldConfigs opts s =
     (let t = submit_try pf cfg rem d workflowId formData fieldConfigs opts s
      in case outcome (submitted t) of
           Inr result \<Rightarrow> t
         | Inl error \<Rightarrow>
             (case call_hook (onError opts) (ErrorArg error) (onError_calls t) of
                (Some e, calls) \<Rightarrow>
                  t\<lparr>submitted := (submitted t)\<lparr>outcome := Inl e\<rparr>, onError_calls := calls\<rparr>
              | (None, calls) \<Rightarrow> t\<lparr>onError_calls := calls\<rparr>))"


subsection \<open>A reference expression engine\<close>

text \<open>
  A small engine for running the visibility rules on actual inputs. It substitutes keys
  made of word characters (for these \<open>\\b\<close> on either side means: no word character next
  to the match) by replacement texts without \<open>$\<close>, and evaluates a literal or one
  comparison of two literals (quoted strings, \<open>true\<close>, \<open>false\<close>, \<open>null\<close>). It throws on
  everything else.
\<close>

definition is_word :: "char \<Rightarrow> bool" where
  "is_word c =
     (let n = (of_char c :: nat)
      in (48 \<le> n \<and> n \<le> 57) \<or> (65 \<le> n \<and> n \<le> 90) \<or> (97 \<le> n \<and> n \<le> 122) \<or> n = 95)"

fun replace_scan :: "string \<Rightarrow> string \<Rightarrow> bool \<Rightarrow> string \<Rightarrow> string" where
  "replace_scan key r prev [] = []"
| "replace_scan key r prev (c # cs) =
     (if \<not> prev \<and> key \<noteq> [] \<and> startsWith (c # cs) key
         \<and> \<not> (case drop (length key - 1) cs of [] \<Rightarrow> False | x # xs \<Rightarrow> is_word x)
      then r @ replace_scan key r True (drop (length key - 1) cs)
      else c # replace_scan key r (is_word c) cs)"

definition word_replace :: "string \<Rightarrow> string \<Rightarrow> string \<Rightarrow> string option" where
  "word_replace key r e =
     (if key \<noteq> [] \<and> list_all is_word key \<and> CHR ''$'' \<notin> set r
      then Some (replace_scan key r False e) else None)"

fun read_quoted :: "string \<Rightarrow> string \<Rightarrow> (string \<times> string) option" where
  "read_quoted [] acc = None"
| "read_quoted (c # cs) acc =
     (if c = CHR 0x27 then Some (acc, cs)
      else if c = CHR 0x5C \<or> c = CHR 0x0A \<or> c = CHR 0x0D then None
      else read_quoted cs (acc @ [c]))"

definition keyword :: "string \<Rightarrow> string \<Rightarrow> bool" where
  "keyword w s = (startsWith s w \<and> (case drop (length w) s of [] \<Rightarrow> True | x # xs \<Rightarrow> \<not> is_word x))"

definition read_literal :: "string \<Rightarrow> (jsval \<times> string) option" where
  "read_literal s0 =
     (let s = skip_ws s0
      in case s of
           [] \<Rightarrow> None
         | c # cs \<Rightarrow>
             if c = CHR 0x27 then
               (case read_quoted cs [] of None \<Rightarrow> None | Some (t, rest) \<Rightarrow> Some (JStr t, rest))
             else if keyword ''true'' s then Some (JBool True, drop 4 s)
             else if keyword ''false'' s then Some (JBool False, drop 5 s)
             else if keyword ''null'' s then Some (JNull, drop 4 s)
             else None)"

definition same_kind :: "jsval \<Rightarrow> jsval \<Rightarrow> bool" where
  "same_kind a b =
     (case (a, b) of
        (JStr x, JStr y) \<Rightarrow> True
      | (JBool x, JBool y) \<Rightarrow> True
      | (JNull, JNull) \<Rightarrow> True
      | _ \<Rightarrow> False)"

definition compare :: "string \<Rightarrow> jsval \<Rightarrow> jsval \<Rightarrow> jsval option" where
  "compare op a b =
     (if op = ''==='' then Some (JBool (a = b))
      else if op = ''!=='' then Some (JBool (a \<noteq> b))
      else if op = ''=='' \<and> same_kind a b then Some (JBool (a = b))
      else if op = ''!='' \<and> same_kind a b then Some (JBool (a \<noteq> b))
      else None)"

definition literal_eval :: "string \<Rightarrow> jsval option" where
  "literal_eval e =
     (case read_literal e of
        None \<Rightarrow> None
      | Some (a, rest) \<Rightarrow>
          let r = skip_ws rest;
              op = takeWhile (\<lambda>c. c = CHR ''='' \<or> c = CHR ''!'') r
          in if r = [] then Some a
             else (case read_literal (drop (length op) r) of
                     None \<Rightarrow> None
                   | Some (b, rest') \<Rightarrow> if skip_ws rest' = [] then compare op a b else None))"

definition sample_engine :: engine where
  "sample_engine = \<lparr>replace_word = word_replace, js_eval = literal_eval\<rparr>"

subsection \<open>A sample form\<close>

definition text_field :: "string \<Rightarrow> string \<Rightarrow> field_config" where
  "text_field name label =
     \<lparr>field_name = name, field_displayname = label, field_type = JStr ''text'',
      required = JBool False, min_length = None, max_length = None, hidden = JBool False,
      condition_1 = JUndefined, condition_1_action = JUndefined,
      condition_2 = JUndefined, condition_2_action = JUndefined\<rparr>"

definition plan_field :: field_config where
  "plan_field = (text_field ''plan'' ''Plan'')\<lparr>field_type := JStr ''select'', required := JBool True\<rparr>"

definition notes_field :: field_config where
  "notes_field = (text_field ''notes'' ''Notes'')\<lparr>hidden := JBool True\<rparr>"

definition vat_field :: field_config where
  "vat_field = (text_field ''vat'' ''VAT number'')
     \<lparr>hidden := JBool True, condition_1 := JStr (''plan == '' @ single_quoted ''pro''), condition_1_action := JStr ''show''\<rparr>"

definition po_field :: field_config where
  "po_field = (text_field ''po'' ''Purchase order'')
     \<lparr>hidden := JBool True, condition_1 := JStr (''plan == '' @ single_quoted ''pro''), condition_1_action := JStr ''show'',
      condition_2 := JStr (''plan == '' @ single_quoted ''free''), condition_2_action := JStr ''show''\<rparr>"

definition promo_field :: field_config where
  "promo_field = (text_field ''promo'' ''Promo code'')
     \<lparr>hidden := JBool True, condition_1 := JStr (''plan == '' @ single_quoted ''free''), condition_1_action := JStr ''show'',
      condition_2 := JStr (''plan == '' @ single_quoted ''pro''), condition_2_action := JStr ''show''\<rparr>"

definition seats_field :: field_config where
  "seats_field = (text_field ''seats'' ''Seats'')
     \<lparr>hidden := JBool True, condition_1 := JStr (''plan == '' @ single_quoted ''pro''), condition_1_action := JStr ''show'',
      condition_2 := JStr (''plan != '' @ single_quoted ''free''), condition_2_action := JStr ''show''\<rparr>"

definition company_field :: field_config where
  "company_field = (text_field ''company'' ''Company'')\<lparr>required := JBool True\<rparr>"



text \<open>
  The rendered form: \<open>plan\<close> is a select showing \<open>pro\<close>; the groups of \<open>seats\<close>,
  \<open>company\<close>, \<open>contact\<close> and \<open>billing\<close> are hidden; the other groups are visible.
\<close>

definition sample_dom :: dom where
  "sample_dom =
     \<lparr>inputs = (\<lambda>name. if name = ''plan''
                        then Some \<lparr>input_type = ''select-one'', checked = False, input_value = ''pro''\<rparr>
                        else None),
      checked_radio = (\<lambda>name. None),
      display = [''plan'' \<mapsto> [], ''notes'' \<mapsto> [], ''vat'' \<mapsto> [], ''po'' \<mapsto> [],
                 ''promo'' \<mapsto> [], ''seats'' \<mapsto> ''none'',
                 ''company'' \<mapsto> ''none'', ''contact'' \<mapsto> ''none'', ''billing'' \<mapsto> ''none'']\<rparr>"


definition silent_hook :: hook where
  "silent_hook arg = None"

definition sample_fields :: "field_config list" where
  "sample_fields = [plan_field, notes_field, vat_field, po_field, promo_field, seats_field]"

definition hook_options :: options where
  "hook_options = no_options\<lparr>onError := Some silent_hook\<rparr>"


section \<open>Properties of the completion poller\<close>

lemma loop_body_running_proj:
  assumes "running reply" and "loop_body eid cb reply st = (c, st')"
  shows "c = Next \<and> attempts st' = attempts st + 1 \<and> waits st' = waits st @ [2000]
         \<and> emptyOutputRetries st' = emptyOutputRetries st \<and> queries st' = queries st"
  using assms
  by (auto simp: running_def resolved_def loop_body_def try_block_def Let_def
           split: sum.splits option.splits if_splits)

lemma poll_loop_running:
  assumes "\<forall>n. running (remote n)"
  shows "nat (maxAttempts - attempts st) = k \<Longrightarrow>
         (case poll_loop eid cb remote st of (r, st') \<Rightarrow>
            r = Inl PollTimeout \<and> attempts st' = max (attempts st) maxAttempts
            \<and> queries st' = queries st + k
            \<and> waits st' = waits st @ replicate k 2000
            \<and> emptyOutputRetries st' = emptyOutputRetries st)"
proof (induction k arbitrary: st)
  case 0
  then have "\<not> attempts st < maxAttempts" by simp
  then show ?case by (simp add: poll_loop.simps)
next
  case (Suc k)
  then have lt: "attempts st < maxAttempts" by simp
  obtain c s1 where lb: "loop_body eid cb (remote (queries st)) (st\<lparr>queries := queries st + 1\<rparr>) = (c, s1)"
    by (cases "loop_body eid cb (remote (queries st)) (st\<lparr>queries := queries st + 1\<rparr>)")
  from assms have "running (remote (queries st))" by simp
  from loop_body_running_proj [OF this lb]
  have c: "c = Next" and s1: "attempts s1 = attempts st + 1" "waits s1 = waits st @ [2000]"
    "emptyOutputRetries s1 = emptyOutputRetries st" "queries s1 = queries st + 1"
    by simp_all
  from Suc.prems s1 have "nat (maxAttempts - attempts s1) = k" by simp
  from Suc.IH [OF this] s1 lt
  have "(case poll_loop eid cb remote s1 of (r, st') \<Rightarrow>
            r = Inl PollTimeout \<and> attempts st' = max (attempts st) maxAttempts
            \<and> queries st' = queries st + Suc k
            \<and> waits st' = waits st @ replicate (Suc k) 2000
            \<and> emptyOutputRetries st' = emptyOutputRetries st)"
    by (auto simp: replicate_append_same split: prod.splits)
  moreover have "poll_loop eid cb remote st = poll_loop eid cb remote s1"
    using lt lb c by (subst poll_loop.simps) simp
  ultimately show ?case by simp
qed

lemma loop_body_absent_grace:
  assumes "absent reply" and "attempts st < 5"
  shows "loop_body eid cb reply st = (Next, st\<lparr>attempts := attempts st + 1, waits := waits st @ [500]\<rparr>)"
  using assms
  by (auto simp: absent_def loop_body_def try_block_def split: sum.splits)

lemma loop_body_absent_late:
  assumes "absent reply" and "5 \<le> attempts st"
  shows "loop_body eid cb reply st =
           (if attempts st + 1 \<ge> maxAttempts
            then (Throw (ExecutionNotFound eid), st\<lparr>attempts := attempts st + 1\<rparr>)
            else (Next, st\<lparr>attempts := attempts st + 1, waits := waits st @ [1000]\<rparr>))"
  using assms
  by (auto simp: absent_def loop_body_def try_block_def catch_block_def Let_def split: sum.splits)

lemma poll_loop_absent_grace:
  assumes "\<forall>n. absent (remote n)"
  shows "nat (5 - attempts st) = k \<Longrightarrow> attempts st \<le> 5 \<Longrightarrow>
         poll_loop eid cb remote st =
         poll_loop eid cb remote (st\<lparr>queries := queries st + k, attempts := 5,
                                      waits := waits st @ replicate k 500\<rparr>)"
proof (induction k arbitrary: st)
  case 0
  then have "attempts st = 5" by simp
  then have "st\<lparr>queries := queries st + 0, attempts := 5, waits := waits st @ replicate 0 500\<rparr> = st"
    by simp
  then show ?case by simp
next
  case (Suc k)
  then have lt: "attempts st < 5" by simp
  let ?s1 = "st\<lparr>queries := queries st + 1, attempts := attempts st + 1, waits := waits st @ [500]\<rparr>"
  from assms have ab: "absent (remote (queries st))" by simp
  have step: "poll_loop eid cb remote st = poll_loop eid cb remote ?s1"
    using lt loop_body_absent_grace [OF ab, of "st\<lparr>queries := queries st + 1\<rparr>" eid cb]
    by (subst poll_loop.simps) (simp add: maxAttempts_def)
  from Suc.prems lt have "nat (5 - attempts ?s1) = k" "attempts ?s1 \<le> 5" by simp_all
  from Suc.IH [OF this] have "poll_loop eid cb remote ?s1 =
     poll_loop eid cb remote (st\<lparr>queries := queries st + Suc k, attempts := 5,
                                      waits := waits st @ replicate (Suc k) 500\<rparr>)"
    by (simp add: replicate_append_same)
  with step show ?case by simp
qed

lemma poll_loop_absent_late:
  assumes "\<forall>n. absent (remote n)"
  shows "nat (maxAttempts - attempts st) = Suc k \<Longrightarrow> 5 \<le> attempts st \<Longrightarrow>
         poll_loop eid cb remote st =
         (Inl (ExecutionNotFound eid),
          st\<lparr>queries := queries st + Suc k, attempts := maxAttempts,
              waits := waits st @ replicate k 1000\<rparr>)"
proof (induction k arbitrary: st)
  case 0
  then have a: "attempts st + 1 = maxAttempts" by simp
  then have lt: "attempts st < maxAttempts" by simp
  from assms have ab: "absent (remote (queries st))" by simp
  show ?case
    using lt a loop_body_absent_late [OF ab, of "st\<lparr>queries := queries st + 1\<rparr>" eid cb] 0
    by (subst poll_loop.simps) simp
next
  case (Suc k)
  then have lt: "attempts st + 1 < maxAttempts" by simp
  let ?s1 = "st\<lparr>queries := queries st + 1, attempts := attempts st + 1, waits := waits st @ [1000]\<rparr>"
  from assms have ab: "absent (remote (queries st))" by simp
  have step: "poll_loop eid cb remote st = poll_loop eid cb remote ?s1"
    using lt loop_body_absent_late [OF ab, of "st\<lparr>queries := queries st + 1\<rparr>" eid cb] Suc.prems
    by (subst poll_loop.simps) simp
  from Suc.prems lt have "nat (maxAttempts - attempts ?s1) = Suc k" "5 \<le> attempts ?s1" by simp_all
  from Suc.IH [OF this] have "poll_loop eid cb remote ?s1 =
     (Inl (ExecutionNotFound eid),
          st\<lparr>queries := queries st + Suc (Suc k), attempts := maxAttempts,
              waits := waits st @ replicate (Suc k) 1000\<rparr>)"
    by (simp add: replicate_append_same)
  with step show ?case by simp
qed

lemma absent_forever:
  assumes "\<forall>n. absent (remote n)"
  shows "waitForWorkflowCompletion eid cb remote =
           (Inl (ExecutionNotFound eid),
            \<lparr>attempts = 150, emptyOutputRetries = 0, queries = 150,
             waits = replicate 5 500 @ replicate 144 1000, progress = []\<rparr>)"
proof -
  have "poll_loop eid cb remote initial_poll_state =
        poll_loop eid cb remote (initial_poll_state\<lparr>queries := queries initial_poll_state + 5, attempts := 5,
                                      waits := waits initial_poll_state @ replicate 5 500\<rparr>)"
    by (rule poll_loop_absent_grace [OF assms]) (simp_all add: initial_poll_state_def)
  also have "\<dots> = (Inl (ExecutionNotFound eid),
            \<lparr>attempts = 150, emptyOutputRetries = 0, queries = 150,
             waits = replicate 5 500 @ replicate 144 1000, progress = []\<rparr>)"
    by (subst poll_loop_absent_late [OF assms, where k = 144])
       (simp_all add: initial_poll_state_def maxAttempts_def)
  finally show ?thesis by (simp add: waitForWorkflowCompletion_def)
qed




subsection \<open>The claims about the poller\<close>



text \<open>
  Claim C2. An execution that is never queryable: the first five absences are retried at
  500 ms, but the sixth does not end the call. The \<open>throw\<close> sits inside the loop's own
  \<open>try\<close> block, so the \<open>catch\<close> clause counts it as a failed query, waits 1000 ms and
  polls again. The error "Execution not found after retries" reaches the caller only
  when the attempt counter hits 150, after 150 status queries.
\<close>

theorem not_found_surfaces_at_attempt_150:
  "waitForWorkflowCompletion (JStr ''exec-1'') None never_queryable
     = (Inl (ExecutionNotFound (JStr ''exec-1'')),
        \<lparr>attempts = 150, emptyOutputRetries = 0, queries = 150,
         waits = replicate 5 500 @ replicate 144 1000, progress = []\<rparr>)"
  by (rule absent_forever) (simp add: absent_def never_queryable_def extract_execution_def)

text \<open>
  Claim C3. When every status reply shows a resolvable execution in a non-terminal
  status, the poller fails with the timeout error after exactly 150 status queries, each
  followed by a 2000 ms wait; it consumes no empty-output retry, runs through no error
  retry (no 1000 ms wait) and returns no result.
\<close>

theorem poll_timeout_after_150:
  assumes "\<forall>n. running (remote n)"
  shows "fst (waitForWorkflowCompletion executionId cb remote) = Inl PollTimeout
       \<and> queries (snd (waitForWorkflowCompletion executionId cb remote)) = 150
       \<and> attempts (snd (waitForWorkflowCompletion executionId cb remote)) = 150
       \<and> waits (snd (waitForWorkflowCompletion executionId cb remote)) = replicate 150 2000
       \<and> emptyOutputRetries (snd (waitForWorkflowCompletion executionId cb remote)) = 0"
  using poll_loop_running [OF assms, of initial_poll_state 150 executionId cb]
  by (simp add: waitForWorkflowCompletion_def initial_poll_state_def maxAttempts_def split: prod.splits)

theorem poll_timeout_after_150_witness:
  "(\<forall>n. running (always_running n))
   \<and> fst (waitForWorkflowCompletion (JStr ''exec-1'') None always_running) = Inl PollTimeout
   \<and> queries (snd (waitForWorkflowCompletion (JStr ''exec-1'') None always_running)) = 150"
proof -
  have h: "\<forall>n. running (always_running n)"
    by (simp add: running_def always_running_def status_reply_def resolved_def extract_execution_def
      opt_prop_def is_terminal_def terminalStates_def toUpperCase_def upper_char_def)
  from poll_timeout_after_150 [OF h, of "JStr ''exec-1''" None] h show ?thesis by simp
qed

section \<open>Properties of the cache and the launcher\<close>

lemma getItem_removeItem: "getItem k (removeItem k' s) = (if k = k' then None else getItem k s)"
  by (simp add: getItem_def removeItem_def delete_conv')

lemma getItem_fold_remove:
  "getItem k (fold (\<lambda>key acc. if P key then removeItem key acc else acc) ks s)
     = (if P k \<and> k \<in> set ks then None else getItem k s)"
proof (induction ks arbitrary: s)
  case Nil
  then show ?case by simp
next
  case (Cons a ks)
  show ?case
    by (auto simp: Cons.IH getItem_removeItem)
qed

lemma getItem_remove_prefixed:
  "getItem k (remove_prefixed p s) = (if startsWith k p then None else getItem k s)"
proof -
  have "k \<notin> set (map fst (items s)) \<Longrightarrow> getItem k s = None"
    by (simp add: getItem_def map_of_eq_None_iff)
  then show ?thesis
    unfolding remove_prefixed_def getItem_fold_remove by auto
qed

lemma getItem_clearWorkflowCache:
  "getItem k (clearWorkflowCache pf w i s) = (if touches pf w i k then None else getItem k s)"
  by (simp add: clearWorkflowCache_def touches_def getItem_remove_prefixed getItem_removeItem
           split: option.splits)

lemma getItem_apply_clears:
  "\<forall>c \<in> set cs. \<not> touches pf (fst c) (snd c) k \<Longrightarrow> getItem k (apply_clears pf cs s) = getItem k s"
  unfolding apply_clears_def
  by (induction cs arbitrary: s) (simp_all add: getItem_clearWorkflowCache)

lemma getItem_setItem:
  "setItem k v s = Inr s' \<Longrightarrow> getItem k' s' = (if k' = k then Some v else getItem k' s)"
  by (auto simp: setItem_def getItem_def Let_def update_conv' split: if_splits)

lemma executeWorkflow_hit:
  assumes "resolve_useCache opts cfg"
    and "getItem (cacheKey pf w (default_arg inp (JObj []))) s = Some t" and "t \<noteq> []"
  shows "executeWorkflow pf cfg rem w inp opts s =
           \<lparr>outcome = (case parse pf t of None \<Rightarrow> Inl SyntaxError | Some v \<Rightarrow> Inr v),
            storage = s, requests = 0\<rparr>"
  using assms by (simp add: executeWorkflow_def Let_def)

lemma executeWorkflow_miss_requests:
  assumes "\<not> resolve_useCache opts cfg \<or> getItem (cacheKey pf w (default_arg inp (JObj []))) s = None"
  shows "requests (executeWorkflow pf cfg rem w inp opts s) \<ge> 1"
  using assms
  by (auto simp: executeWorkflow_def Let_def split: sum.splits prod.splits option.splits)

lemma executeWorkflow_launched:
  assumes "executeWorkflow pf cfg rem w inp opts s = r" and "outcome r = Inr v"
    and "requests r > 0" and "resolve_useCache opts cfg"
  shows "setItem (cacheKey pf w (default_arg inp (JObj []))) (stringify pf v) s = Inr (storage r)"
  using assms
  by (auto simp: executeWorkflow_def Let_def split: sum.splits prod.splits option.splits if_splits)

subsection \<open>The claims about the cache and the launcher\<close>

text \<open>
  Claim C4 as stated fails. With caching enabled and a completed poll, a \<open>setItem\<close> that
  throws is not caught anywhere: here the store is full, the poll has produced its
  result, and the launch ends with the storage error instead of the result.
\<close>

theorem cache_write_error_surfaces:
  "resolve_useCache no_options default_config
   \<and> fst (waitForWorkflowCompletion (JStr ''exec-1'') None (status_replies online)) = Inr ticket_result
   \<and> setItem (cacheKey browser ''J1'' x1) (stringify browser ticket_result) full_session = Inl QuotaExceeded
   \<and> outcome (executeWorkflow browser default_config online ''J1'' x1 no_options full_session)
        = Inl QuotaExceeded"
  by code_simp

text \<open>
  Claim C4, amended. With caching enabled, no usable cache entry, a successful launch and
  a poll that completes, a storage error thrown by the cache write propagates out of
  \<open>executeWorkflow\<close>: the caller gets that error, not the result, and the store is left
  as it was.
\<close>

theorem cache_write_error_propagates:
  assumes "resolve_useCache opts cfg"
    and "\<not> cache_hit (cacheKey pf w (default_arg inp (JObj []))) s"
    and "launch_reply rem = Inr result"
    and "extract_executionId result = Inr executionId"
    and "waitForWorkflowCompletion executionId (onProgress opts) (status_replies rem) = (Inr finished, st)"
    and "setItem (cacheKey pf w (default_arg inp (JObj []))) (stringify pf finished) s = Inl e"
  shows "outcome (executeWorkflow pf cfg rem w inp opts s) = Inl e
       \<and> storage (executeWorkflow pf cfg rem w inp opts s) = s"
  using assms
  by (auto simp: executeWorkflow_def cache_hit_def Let_def split: option.splits)

theorem cache_write_error_propagates_witness:
  "outcome (executeWorkflow browser default_config online ''J1'' x1 no_options full_session)
        = Inl QuotaExceeded
   \<and> storage (executeWorkflow browser default_config online ''J1'' x1 no_options full_session)
        = full_session"
proof -
  have a: "resolve_useCache no_options default_config" by code_simp
  have b: "\<not> cache_hit (cacheKey browser ''J1'' (default_arg x1 (JObj []))) full_session" by code_simp
  have c: "launch_reply online = Inr (JObj [(''testResult'', JObj [(''executionId'', JStr ''exec-1'')])])"
    by (simp add: online_def)
  have d: "extract_executionId (JObj [(''testResult'', JObj [(''executionId'', JStr ''exec-1'')])])
             = Inr (JStr ''exec-1'')" by code_simp
  have e: "waitForWorkflowCompletion (JStr ''exec-1'') (onProgress no_options) (status_replies online)
             = (Inr ticket_result, \<lparr>attempts = 0, emptyOutputRetries = 0, queries = 1, waits = [],
                                    progress = []\<rparr>)" by code_simp
  have f: "setItem (cacheKey browser ''J1'' (default_arg x1 (JObj []))) (stringify browser ticket_result)
             full_session = Inl QuotaExceeded" by code_simp
  from cache_write_error_propagates [OF a b c d e f] show ?thesis .
qed



text \<open>
  Claim C7. After a launch with caching enabled has gone to the remote endpoint and
  returned a result, a second launch for the same workflow id and payload with caching
  enabled, after any cache clears that do not remove that key, sends no request, leaves
  the store alone and returns what \<open>JSON.parse\<close> makes of the stored text of the first
  result. Once a clear that removes the key has run, the next launch goes to the remote
  endpoint again.
\<close>

theorem cached_result_reused:
  assumes first: "executeWorkflow pf cfg rem w inp opts s = r1"
    and ok: "outcome r1 = Inr v"
    and launched: "requests r1 > 0"
    and use1: "resolve_useCache opts cfg"
    and use2: "resolve_useCache opts' cfg'"
    and untouched: "\<forall>c \<in> set clears. \<not> touches pf (fst c) (snd c) (cacheKey pf w (default_arg inp (JObj [])))"
    and nonempty: "stringify pf v \<noteq> []"
  shows "executeWorkflow pf cfg' rem' w inp opts' (apply_clears pf clears (storage r1)) =
           \<lparr>outcome = (case parse pf (stringify pf v) of None \<Rightarrow> Inl SyntaxError | Some v' \<Rightarrow> Inr v'),
            storage = apply_clears pf clears (storage r1), requests = 0\<rparr>
       \<and> (touches pf cw ci (cacheKey pf w (default_arg inp (JObj []))) \<longrightarrow>
            requests (executeWorkflow pf cfg' rem' w inp opts'
                       (clearWorkflowCache pf cw ci (apply_clears pf clears (storage r1)))) \<ge> 1)"
proof -
  let ?key = "cacheKey pf w (default_arg inp (JObj []))"
  let ?s2 = "apply_clears pf clears (storage r1)"
  from executeWorkflow_launched [OF first ok launched use1]
  have "getItem ?key (storage r1) = Some (stringify pf v)"
    by (simp add: getItem_setItem)
  with untouched have stored: "getItem ?key ?s2 = Some (stringify pf v)"
    by (simp add: getItem_apply_clears)
  have hit: "executeWorkflow pf cfg' rem' w inp opts' ?s2 =
           \<lparr>outcome = (case parse pf (stringify pf v) of None \<Rightarrow> Inl SyntaxError | Some v' \<Rightarrow> Inr v'),
            storage = ?s2, requests = 0\<rparr>"
    by (rule executeWorkflow_hit [OF use2 stored nonempty])
  have miss: "requests (executeWorkflow pf cfg' rem' w inp opts' (clearWorkflowCache pf cw ci ?s2)) \<ge> 1"
    if "touches pf cw ci ?key"
  proof -
    from that have "getItem ?key (clearWorkflowCache pf cw ci ?s2) = None"
      by (simp add: getItem_clearWorkflowCache)
    then show ?thesis
      by (intro executeWorkflow_miss_requests) simp
  qed
  from hit miss show ?thesis by blast
qed

theorem cached_result_reused_witness:
  "executeWorkflow browser default_config offline ''J1'' x1 no_options
     (apply_clears browser [(Some ''J2'', JNull), (Some ''J1'', JObj [(''x'', JNum 2)])]
        (storage (executeWorkflow browser default_config online ''J1'' x1 no_options empty_session)))
   = \<lparr>outcome = Inr ticket_result,
      storage = apply_clears browser [(Some ''J2'', JNull), (Some ''J1'', JObj [(''x'', JNum 2)])]
        (storage (executeWorkflow browser default_config online ''J1'' x1 no_options empty_session)),
      requests = 0\<rparr>
   \<and> requests (executeWorkflow browser default_config offline ''J1'' x1 no_options
        (clearWorkflowCache browser (Some ''J1'') JNull
          (apply_clears browser [(Some ''J2'', JNull), (Some ''J1'', JObj [(''x'', JNum 2)])]
            (storage (executeWorkflow browser default_config online ''J1'' x1 no_options empty_session)))))
       \<ge> 1"
proof -
  let ?first = "executeWorkflow browser default_config online ''J1'' x1 no_options empty_session"
  let ?clears = "[(Some ''J2'', JNull), (Some ''J1'', JObj [(''x'', JNum 2)])]"
  have ok: "outcome ?first = Inr ticket_result" by code_simp
  have launched: "requests ?first > 0" by code_simp
  have use: "resolve_useCache no_options default_config" by code_simp
  have untouched: "\<forall>c \<in> set ?clears.
      \<not> touches browser (fst c) (snd c) (cacheKey browser ''J1'' (default_arg x1 (JObj [])))"
    by code_simp
  have nonempty: "stringify browser ticket_result \<noteq> []" by code_simp
  have roundtrip: "parse browser (stringify browser ticket_result) = Some ticket_result" by code_simp
  have touched: "touches browser (Some ''J1'') JNull (cacheKey browser ''J1'' (default_arg x1 (JObj [])))"
    by code_simp
  from cached_result_reused [where cfg' = default_config and rem' = offline
        and cw = "Some ''J1''" and ci = JNull, OF refl ok launched use use untouched nonempty]
    roundtrip touched
  show ?thesis by simp
qed

section \<open>Properties of the form evaluator\<close>

text \<open>
  The executable test agrees with the regular expression read as a grammar: some
  non-empty run of plain characters, \<open>@\<close>, another such run, a dot, and a third.
\<close>

lemma plain_dot: "plain_char CHR ''.''"
  by (simp add: plain_char_def regex_space_def)

lemma emailRegex_test_iff:
  "emailRegex_test s \<longleftrightarrow>
     (\<exists>a b c. s = a @ [CHR ''@''] @ b @ [CHR ''.''] @ c \<and> a \<noteq> [] \<and> b \<noteq> [] \<and> c \<noteq> []
        \<and> list_all plain_char a \<and> list_all plain_char b \<and> list_all plain_char c)"
proof
  assume t: "emailRegex_test s"
  let ?name = "takeWhile (\<lambda>c. c \<noteq> CHR ''@'') s"
  let ?rest = "dropWhile (\<lambda>c. c \<noteq> CHR ''@'') s"
  from t have name: "?name \<noteq> []" "list_all plain_char ?name"
    by (simp_all add: emailRegex_test_def Let_def)
  from t obtain at host where rest: "?rest = at # host"
    by (auto simp: emailRegex_test_def Let_def split: list.splits)
  with t have host: "list_all plain_char host"
    and dot: "list_ex (\<lambda>i. host ! i = CHR ''.'') [1 ..< length host - 1]"
    by (simp_all add: emailRegex_test_def Let_def)
  from rest have "at = hd ?rest" by simp
  moreover from rest have "?rest \<noteq> []" by simp
  ultimately have at: "at = CHR ''@''"
    using hd_dropWhile [of "\<lambda>c. c \<noteq> CHR ''@''" s] by simp
  from dot obtain i where i: "1 \<le> i" "i < length host - 1" "host ! i = CHR ''.''"
    by (auto simp: list_ex_iff)
  then have "i < length host" by simp
  then have split: "host = take i host @ [CHR ''.''] @ drop (Suc i) host"
    using id_take_nth_drop [of i host] i(3) by simp
  have "s = ?name @ ?rest" by simp
  with rest at split have "s = ?name @ [CHR ''@''] @ take i host @ [CHR ''.''] @ drop (Suc i) host"
    by simp
  moreover from i have "take i host \<noteq> []" "drop (Suc i) host \<noteq> []" by auto
  moreover from host have "list_all plain_char (take i host)" "list_all plain_char (drop (Suc i) host)"
    by (auto simp: list_all_iff dest: in_set_takeD in_set_dropD)
  ultimately show "\<exists>a b c. s = a @ [CHR ''@''] @ b @ [CHR ''.''] @ c \<and> a \<noteq> [] \<and> b \<noteq> [] \<and> c \<noteq> []
        \<and> list_all plain_char a \<and> list_all plain_char b \<and> list_all plain_char c"
    using name by blast
next
  assume "\<exists>a b c. s = a @ [CHR ''@''] @ b @ [CHR ''.''] @ c \<and> a \<noteq> [] \<and> b \<noteq> [] \<and> c \<noteq> []
        \<and> list_all plain_char a \<and> list_all plain_char b \<and> list_all plain_char c"
  then obtain a b c where s: "s = a @ [CHR ''@''] @ b @ [CHR ''.''] @ c"
    and ne: "a \<noteq> []" "b \<noteq> []" "c \<noteq> []"
    and pl: "list_all plain_char a" "list_all plain_char b" "list_all plain_char c"
    by blast
  from pl(1) have noat: "\<forall>x \<in> set a. x \<noteq> CHR ''@''"
    by (auto simp: list_all_iff plain_char_def)
  let ?host = "b @ [CHR ''.''] @ c"
  from noat have tw: "takeWhile (\<lambda>c. c \<noteq> CHR ''@'') s = a"
    unfolding s by (simp add: takeWhile_tail)
  from noat have dw: "dropWhile (\<lambda>c. c \<noteq> CHR ''@'') s = CHR ''@'' # ?host"
    unfolding s by (simp add: dropWhile_append3)
  have "list_all plain_char ?host"
    using pl plain_dot by simp
  moreover have "list_ex (\<lambda>i. ?host ! i = CHR ''.'') [1 ..< length ?host - 1]"
  proof -
    from ne have "1 \<le> length b" "1 \<le> length c"
      by (simp_all add: Suc_le_eq)
    then have "1 \<le> length b \<and> length b < length ?host - 1"
      using ne by simp
    then have "length b \<in> set [1 ..< length ?host - 1]"
      by (simp only: set_upt atLeastLessThan_iff)
    moreover have "?host ! length b = CHR ''.''"
      by (simp add: nth_append)
    ultimately show ?thesis
      unfolding list_ex_iff by blast
  qed
  ultimately show "emailRegex_test s"
    using ne(1) pl(1) by (simp add: emailRegex_test_def Let_def tw dw del: append.simps upt.simps)
qed

lemma validate_field_hidden_required:
  assumes "truthy (required c)" and "display d (field_name c) = Some ''none''"
  shows "validate_field d formData c v = v"
  using assms by (simp add: validate_field_def)


lemma map_of_add_error_other:
  "name \<noteq> k \<Longrightarrow> map_of (errors (add_error k msg v)) name = map_of (errors v) name"
  by (simp add: add_error_def update_conv')


lemma isValid_add_error [simp]: "\<not> isValid (add_error k msg v)"
  by (simp add: add_error_def)

lemma validate_field_other_name:
  assumes "field_name c \<noteq> name"
  shows "map_of (errors (validate_field d formData c v)) name = map_of (errors v) name"
  using assms
  by (simp add: validate_field_def Let_def map_of_add_error_other split: option.splits)

lemma fold_validate_other_names:
  assumes "\<forall>c \<in> set cfgs. field_name c \<noteq> name"
  shows "map_of (errors (fold (validate_field d formData) cfgs v)) name = map_of (errors v) name"
  using assms
  by (induction cfgs arbitrary: v) (simp_all add: validate_field_other_name)

lemma fold_validate_skip_hidden:
  assumes "\<forall>c \<in> set cfgs. field_name c = name \<longrightarrow> truthy (required c)"
    and "display d name = Some ''none''"
  shows "fold (validate_field d formData) cfgs v
       = fold (validate_field d formData) (filter (\<lambda>c. field_name c \<noteq> name) cfgs) v"
  using assms
proof (induction cfgs arbitrary: v)
  case Nil
  then show ?case by simp
next
  case (Cons c cfgs)
  show ?case
  proof (cases "field_name c = name")
    case True
    with Cons.prems have "validate_field d formData c v = v"
      by (intro validate_field_hidden_required) simp_all
    with True Cons show ?thesis by simp
  next
    case False
    with Cons show ?thesis by simp
  qed
qed

lemma display_apply_other:
  "field_name c \<noteq> name \<Longrightarrow> display (apply_visibility eng fd c d) name = display d name"
  by (simp add: apply_visibility_def split: option.splits)

lemma display_fold_other:
  "\<forall>c \<in> set cfgs. field_name c \<noteq> name \<Longrightarrow>
     display (fold (apply_visibility eng fd) cfgs d) name = display d name"
  by (induction cfgs arbitrary: d) (simp_all add: display_apply_other)

lemma display_fold_member:
  assumes "c \<in> set cfgs" and "distinct (map field_name cfgs)" and "display d (field_name c) \<noteq> None"
  shows "display (fold (apply_visibility eng fd) cfgs d) (field_name c)
           = Some (if truthy (shouldShow eng fd c) then [] else ''none'')"
  using assms
proof (induction cfgs arbitrary: d)
  case Nil
  then show ?case by simp
next
  case (Cons x xs)
  show ?case
  proof (cases "c = x")
    case True
    from Cons.prems(2) have "field_name x \<notin> field_name ` set xs" by simp
    then have "\<forall>y \<in> set xs. field_name y \<noteq> field_name x" by (metis imageI)
    then have "display (fold (apply_visibility eng fd) xs (apply_visibility eng fd x d)) (field_name x)
                 = display (apply_visibility eng fd x d) (field_name x)"
      by (rule display_fold_other)
    moreover from True Cons.prems(3)
    have "display (apply_visibility eng fd x d) (field_name x)
            = Some (if truthy (shouldShow eng fd x) then [] else ''none'')"
      by (auto simp: apply_visibility_def)
    ultimately show ?thesis using True by simp
  next
    case False
    with Cons.prems have mem: "c \<in> set xs" and ne: "field_name x \<noteq> field_name c" by auto
    from ne Cons.prems(3) have "display (apply_visibility eng fd x d) (field_name c) \<noteq> None"
      by (simp add: display_apply_other)
    with Cons.IH [OF mem] Cons.prems(2) show ?thesis by simp
  qed
qed

subsection \<open>The claims about forms\<close>

text \<open>
  Claim C5 as stated fails. With an \<open>onError\<close> hook supplied and an invalid form, the
  submission still throws "Form validation failed" to its caller.
\<close>

theorem validation_failure_thrown_despite_hook:
  "\<not> isValid (validateForm sample_dom [] [plan_field])
   \<and> onError hook_options \<noteq> None
   \<and> outcome (submitted (submitForm browser default_config online sample_dom ''J1'' [] [plan_field]
                           hook_options empty_session))
        = Inl ValidationFailed"
proof -
  have "\<not> isValid (validateForm sample_dom [] [plan_field])" by code_simp
  moreover have "onError hook_options \<noteq> None" by (simp add: hook_options_def)
  moreover have "outcome (submitted (submitForm browser default_config online sample_dom ''J1'' []
                   [plan_field] hook_options empty_session)) = Inl ValidationFailed"
    by code_simp
  ultimately show ?thesis by simp
qed

text \<open>
  Claim C5, amended. When \<open>validateForm\<close> reports the form invalid, \<open>submitForm\<close> sends no
  request, leaves the store alone and always ends with an exception, hook or no hook. A
  supplied \<open>onError\<close> hook is called first with the validation-error mapping; if the hook
  does not throw, the exception is "Form validation failed", which the \<open>catch\<close> clause
  hands to the hook as well before rethrowing it. Without a hook the same exception is
  thrown. When the hook itself throws, what it threw propagates: the exception of its
  second call if that one throws too, otherwise the exception of its first call.
\<close>

theorem validation_failure_always_thrown:
  assumes "\<not> isValid (validateForm d formData fieldConfigs)"
  shows "isl (outcome (submitted (submitForm pf cfg rem d workflowId formData fieldConfigs opts s)))
       \<and> requests (submitted (submitForm pf cfg rem d workflowId formData fieldConfigs opts s)) = 0
       \<and> storage (submitted (submitForm pf cfg rem d workflowId formData fieldConfigs opts s)) = s
       \<and> (onError opts \<noteq> None \<longrightarrow>
            hd (onError_calls (submitForm pf cfg rem d workflowId formData fieldConfigs opts s))
              = ErrorsArg (errors (validateForm d formData fieldConfigs)))
       \<and> (onError opts = Some h \<and> h (ErrorsArg (errors (validateForm d formData fieldConfigs))) = None
            \<and> h (ErrorArg ValidationFailed) = None \<longrightarrow>
            outcome (submitted (submitForm pf cfg rem d workflowId formData fieldConfigs opts s))
              = Inl ValidationFailed
            \<and> onError_calls (submitForm pf cfg rem d workflowId formData fieldConfigs opts s)
                = [ErrorsArg (errors (validateForm d formData fieldConfigs)), ErrorArg ValidationFailed])
       \<and> (onError opts = None \<longrightarrow>
            outcome (submitted (submitForm pf cfg rem d workflowId formData fieldConfigs opts s))
              = Inl ValidationFailed)
       \<and> (onError opts = Some h \<and> h (ErrorsArg (errors (validateForm d formData fieldConfigs))) = Some e
            \<longrightarrow>
            outcome (submitted (submitForm pf cfg rem d workflowId formData fieldConfigs opts s))
              = Inl (case h (ErrorArg e) of None \<Rightarrow> e | Some e' \<Rightarrow> e'))
       \<and> (onError opts = Some h \<and> h (ErrorsArg (errors (validateForm d formData fieldConfigs))) = None
            \<and> h (ErrorArg ValidationFailed) = Some e \<longrightarrow>
            outcome (submitted (submitForm pf cfg rem d workflowId formData fieldConfigs opts s))
              = Inl e)"
  using assms
  by (auto simp: submitForm_def submit_try_def call_hook_def Let_def split: option.splits)

theorem validation_failure_always_thrown_witness:
  "isl (outcome (submitted (submitForm browser default_config online sample_dom ''J1'' [] [plan_field]
                           hook_options empty_session)))
   \<and> requests (submitted (submitForm browser default_config online sample_dom ''J1'' [] [plan_field]
                           hook_options empty_session)) = 0
   \<and> onError_calls (submitForm browser default_config online sample_dom ''J1'' [] [plan_field]
                           hook_options empty_session)
        = [ErrorsArg [(''plan'', [''Plan is required''])], ErrorArg ValidationFailed]"
proof -
  have invalid: "\<not> isValid (validateForm sample_dom [] [plan_field])" by code_simp
  have errs: "errors (validateForm sample_dom [] [plan_field]) = [(''plan'', [''Plan is required''])]"
    by code_simp
  have hook: "onError hook_options = Some silent_hook" by (simp add: hook_options_def)
  from validation_failure_always_thrown [OF invalid, of browser default_config online "''J1''" hook_options empty_session silent_hook]
    hook errs
  show ?thesis by (simp add: silent_hook_def)
qed

text \<open>
  Claim C8. For a field configuration in the list (field names distinct, its group
  element present) with a truthy \<open>hidden\<close>: with no conditions the group is hidden; with
  a \<open>condition_1\<close> that evaluates truthy and has action "show" (and no \<open>condition_2\<close>) the
  group is shown; with, in addition, a \<open>condition_2\<close> of action "show" that evaluates
  falsy the group is hidden again. \<open>condition_2\<close> is conjoined, it does not override:
  when both conditions have action "show" the group is shown exactly when both evaluate
  truthy (so a falsy \<open>condition_1\<close> keeps the group hidden whatever \<open>condition_2\<close> gives),
  and a \<open>condition_2\<close> alone cannot lift the \<open>hidden\<close> default.
\<close>

theorem visibility_precedence:
  assumes "c \<in> set allFieldConfigs" and "distinct (map field_name allFieldConfigs)"
    and "display d (field_name c) \<noteq> None"
    and "truthy (hidden c)"
  shows "(\<not> truthy (condition_1 c) \<and> \<not> truthy (condition_2 c)
            \<longrightarrow> display (evaluateConditionalVisibility eng allFieldConfigs d) (field_name c) = Some ''none'')
       \<and> (truthy (condition_1 c) \<and> condition_1_action c = JStr ''show''
          \<and> truthy (evaluateCondition eng (condition_1 c) (collect_formData d allFieldConfigs))
          \<and> \<not> truthy (condition_2 c)
            \<longrightarrow> display (evaluateConditionalVisibility eng allFieldConfigs d) (field_name c) = Some [])
       \<and> (truthy (condition_1 c) \<and> condition_1_action c = JStr ''show''
          \<and> truthy (evaluateCondition eng (condition_1 c) (collect_formData d allFieldConfigs))
          \<and> truthy (condition_2 c) \<and> condition_2_action c = JStr ''show''
          \<and> \<not> truthy (evaluateCondition eng (condition_2 c) (collect_formData d allFieldConfigs))
            \<longrightarrow> display (evaluateConditionalVisibility eng allFieldConfigs d) (field_name c) = Some ''none'')
       \<and> (truthy (condition_1 c) \<and> condition_1_action c = JStr ''show''
          \<and> \<not> truthy (evaluateCondition eng (condition_1 c) (collect_formData d allFieldConfigs))
          \<and> truthy (condition_2 c) \<and> condition_2_action c = JStr ''show''
          \<and> truthy (evaluateCondition eng (condition_2 c) (collect_formData d allFieldConfigs))
            \<longrightarrow> display (evaluateConditionalVisibility eng allFieldConfigs d) (field_name c) = Some ''none'')
       \<and> (truthy (condition_1 c) \<and> condition_1_action c = JStr ''show''
          \<and> truthy (condition_2 c) \<and> condition_2_action c = JStr ''show''
            \<longrightarrow> display (evaluateConditionalVisibility eng allFieldConfigs d) (field_name c)
                  = Some (if truthy (evaluateCondition eng (condition_1 c) (collect_formData d allFieldConfigs))
                             \<and> truthy (evaluateCondition eng (condition_2 c) (collect_formData d allFieldConfigs))
                          then [] else ''none''))
       \<and> (\<not> truthy (condition_1 c) \<and> truthy (condition_2 c) \<and> condition_2_action c = JStr ''show''
            \<longrightarrow> display (evaluateConditionalVisibility eng allFieldConfigs d) (field_name c) = Some ''none'')"
proof -
  let ?fd = "collect_formData d allFieldConfigs"
  let ?shown = "display (evaluateConditionalVisibility eng allFieldConfigs d) (field_name c)"
  have shown: "?shown = Some (if truthy (shouldShow eng ?fd c) then [] else ''none'')"
    unfolding evaluateConditionalVisibility_def
    by (rule display_fold_member [OF assms(1-3)])
  have none: "\<not> truthy (condition_1 c) \<and> \<not> truthy (condition_2 c) \<longrightarrow> ?shown = Some ''none''"
    using shown assms(4) by (simp add: shouldShow_def Let_def)
  have first: "truthy (condition_1 c) \<and> condition_1_action c = JStr ''show''
          \<and> truthy (evaluateCondition eng (condition_1 c) ?fd) \<and> \<not> truthy (condition_2 c)
            \<longrightarrow> ?shown = Some []"
    using shown by (simp add: shouldShow_def Let_def)
  have both: "truthy (condition_1 c) \<and> condition_1_action c = JStr ''show''
          \<and> truthy (condition_2 c) \<and> condition_2_action c = JStr ''show''
            \<longrightarrow> ?shown = Some (if truthy (evaluateCondition eng (condition_1 c) ?fd)
                                     \<and> truthy (evaluateCondition eng (condition_2 c) ?fd)
                                  then [] else ''none'')"
    using shown by (simp add: shouldShow_def Let_def js_and_def)
  have second_only: "\<not> truthy (condition_1 c) \<and> truthy (condition_2 c)
          \<and> condition_2_action c = JStr ''show'' \<longrightarrow> ?shown = Some ''none''"
    using shown assms(4) by (simp add: shouldShow_def Let_def js_and_def)
  from none first both second_only show ?thesis by simp
qed

theorem visibility_precedence_witness:
  "display (evaluateConditionalVisibility sample_engine sample_fields sample_dom) ''notes'' = Some ''none''
   \<and> display (evaluateConditionalVisibility sample_engine sample_fields sample_dom) ''vat'' = Some []
   \<and> display (evaluateConditionalVisibility sample_engine sample_fields sample_dom) ''po'' = Some ''none''
   \<and> display (evaluateConditionalVisibility sample_engine sample_fields sample_dom) ''promo'' = Some ''none''
   \<and> display (evaluateConditionalVisibility sample_engine sample_fields sample_dom) ''seats'' = Some []"
proof -
  have dist: "distinct (map field_name sample_fields)" by code_simp
  have n: "notes_field \<in> set sample_fields" "display sample_dom (field_name notes_field) \<noteq> None"
    "truthy (hidden notes_field)"
    "\<not> truthy (condition_1 notes_field) \<and> \<not> truthy (condition_2 notes_field)"
    "field_name notes_field = ''notes''"
    by code_simp+
  have v: "vat_field \<in> set sample_fields" "display sample_dom (field_name vat_field) \<noteq> None"
    "truthy (hidden vat_field)"
    "truthy (condition_1 vat_field) \<and> condition_1_action vat_field = JStr ''show''
     \<and> truthy (evaluateCondition sample_engine (condition_1 vat_field) (collect_formData sample_dom sample_fields))
     \<and> \<not> truthy (condition_2 vat_field)"
    "field_name vat_field = ''vat''"
    by code_simp+
  have p: "po_field \<in> set sample_fields" "display sample_dom (field_name po_field) \<noteq> None"
    "truthy (hidden po_field)"
    "truthy (condition_1 po_field) \<and> condition_1_action po_field = JStr ''show''
     \<and> truthy (evaluateCondition sample_engine (condition_1 po_field) (collect_formData sample_dom sample_fields))
     \<and> truthy (condition_2 po_field) \<and> condition_2_action po_field = JStr ''show''
     \<and> \<not> truthy (evaluateCondition sample_engine (condition_2 po_field) (collect_formData sample_dom sample_fields))"
    "field_name po_field = ''po''"
    by code_simp+
  have r: "promo_field \<in> set sample_fields" "display sample_dom (field_name promo_field) \<noteq> None"
    "truthy (hidden promo_field)"
    "truthy (condition_1 promo_field) \<and> condition_1_action promo_field = JStr ''show''
     \<and> \<not> truthy (evaluateCondition sample_engine (condition_1 promo_field) (collect_formData sample_dom sample_fields))
     \<and> truthy (condition_2 promo_field) \<and> condition_2_action promo_field = JStr ''show''
     \<and> truthy (evaluateCondition sample_engine (condition_2 promo_field) (collect_formData sample_dom sample_fields))"
    "field_name promo_field = ''promo''"
    by code_simp+
  have t: "seats_field \<in> set sample_fields" "display sample_dom (field_name seats_field) \<noteq> None"
    "truthy (hidden seats_field)"
    "truthy (condition_1 seats_field) \<and> condition_1_action seats_field = JStr ''show''
     \<and> truthy (condition_2 seats_field) \<and> condition_2_action seats_field = JStr ''show''"
    "truthy (evaluateCondition sample_engine (condition_1 seats_field) (collect_formData sample_dom sample_fields))
     \<and> truthy (evaluateCondition sample_engine (condition_2 seats_field) (collect_formData sample_dom sample_fields))"
    "field_name seats_field = ''seats''"
    by code_simp+
  from visibility_precedence [OF n(1) dist n(2) n(3), of sample_engine] n(4,5)
  have "display (evaluateConditionalVisibility sample_engine sample_fields sample_dom) ''notes'' = Some ''none''"
    by simp
  moreover from visibility_precedence [OF v(1) dist v(2) v(3), of sample_engine] v(4,5)
  have "display (evaluateConditionalVisibility sample_engine sample_fields sample_dom) ''vat'' = Some []"
    by simp
  moreover from visibility_precedence [OF p(1) dist p(2) p(3), of sample_engine] p(4,5)
  have "display (evaluateConditionalVisibility sample_engine sample_fields sample_dom) ''po'' = Some ''none''"
    by simp
  moreover from visibility_precedence [OF r(1) dist r(2) r(3), of sample_engine] r(4,5)
  have "display (evaluateConditionalVisibility sample_engine sample_fields sample_dom) ''promo'' = Some ''none''"
    by simp
  moreover from visibility_precedence [OF t(1) dist t(2) t(3), of sample_engine] t(4,5,6)
  have "display (evaluateConditionalVisibility sample_engine sample_fields sample_dom) ''seats'' = Some []"
    by simp
  ultimately show ?thesis by simp
qed

text \<open>
  Claim C9. When the rendered group of a field is hidden (\<open>display\<close> is \<open>none\<close>) and every
  configuration of that field is required, \<open>validateForm\<close> records no error under the
  field's name, whatever the form data holds for it, and its whole result is the one it
  gives with those configurations removed; so the field never turns \<open>isValid\<close> false.
\<close>

theorem hidden_required_exempt:
  assumes "\<forall>c \<in> set fieldConfigs. field_name c = name \<longrightarrow> truthy (required c)"
    and "display d name = Some ''none''"
  shows "map_of (errors (validateForm d formData fieldConfigs)) name = None
       \<and> validateForm d formData fieldConfigs
           = validateForm d formData (filter (\<lambda>c. field_name c \<noteq> name) fieldConfigs)"
proof -
  have same: "validateForm d formData fieldConfigs
           = validateForm d formData (filter (\<lambda>c. field_name c \<noteq> name) fieldConfigs)"
    unfolding validateForm_def by (rule fold_validate_skip_hidden [OF assms])
  have "map_of (errors (validateForm d formData (filter (\<lambda>c. field_name c \<noteq> name) fieldConfigs))) name
          = map_of (errors \<lparr>isValid = True, errors = []\<rparr>) name"
    unfolding validateForm_def by (rule fold_validate_other_names) simp
  with same show ?thesis by simp
qed

theorem hidden_required_exempt_witness:
  "map_of (errors (validateForm sample_dom [(''plan'', JStr ''pro'')] [plan_field, company_field])) ''company''
     = None
   \<and> validateForm sample_dom [(''plan'', JStr ''pro'')] [plan_field, company_field]
     = \<lparr>isValid = True, errors = []\<rparr>"
proof -
  have a: "\<forall>c \<in> set [plan_field, company_field]. field_name c = ''company'' \<longrightarrow> truthy (required c)"
    by code_simp
  have b: "display sample_dom ''company'' = Some ''none''" by code_simp
  have c: "validateForm sample_dom [(''plan'', JStr ''pro'')]
             (filter (\<lambda>c. field_name c \<noteq> ''company'') [plan_field, company_field])
           = \<lparr>isValid = True, errors = []\<rparr>"
    by code_simp
  note inst = hidden_required_exempt [OF a b, of "[(''plan'', JStr ''pro'')]"]
  have "validateForm sample_dom [(''plan'', JStr ''pro'')] [plan_field, company_field]
          = validateForm sample_dom [(''plan'', JStr ''pro'')]
              (filter (\<lambda>c. field_name c \<noteq> ''company'') [plan_field, company_field])"
    by (rule conjunct2 [OF inst])
  also have "\<dots> = \<lparr>isValid = True, errors = []\<rparr>" by (rule c)
  finally have d: "validateForm sample_dom [(''plan'', JStr ''pro'')] [plan_field, company_field]
          = \<lparr>isValid = True, errors = []\<rparr>" .
  show ?thesis
    by (rule conjI [OF conjunct1 [OF inst] d])
qed




end
